theory Spec2Isabelle
  imports Main "HOL-Library.Word"
begin

section \<open>JavaScript values as the worker handles them\<close>

text \<open>
  This development covers the worker's event handlers and the functions they call
  (\<^verbatim>\<open>src/worker.js\<close>, lines 56--203): loading and hashing the logic file, connection,
  update, and the execution of a task. The start-up code that creates the identity and the
  placeholder file (lines 19--54) is outside it.
\<close>

text \<open>
  \<^verbatim>\<open>src/worker.js\<close> is untyped: task messages, payloads, the results of the logic module
  and the values it throws are arbitrary JavaScript data. The data part of a value is modelled
  by \<open>jsval\<close>. Numbers are the integer-valued ones (the program only tests a number for
  zero, takes an array length and converts a number to a string); an object is its list of
  own properties, the first entry for a key being the property's value.
\<close>

datatype jsval =
    JUndefined
  | JNull
  | JBool bool
  | JNum int
  | JStr string
  | JArr "jsval list"
  | JObj "(string \<times> jsval) list"

text \<open>An exception object as far as the program reads it: its \<open>message\<close>.\<close>

definition type_error :: "string \<Rightarrow> jsval" where
  "type_error msg = JObj [(''message'', JStr msg)]"

text \<open>The texts of the TypeErrors raised by the engine (V8, as shipped with Node.js).\<close>

definition cannot_read :: "string \<Rightarrow> string \<Rightarrow> string" where
  "cannot_read what k =
     ''Cannot read properties of '' @ what @ '' (reading '' @ [CHR 0x27] @ k @ [CHR 0x27] @ '')''"

definition not_a_function :: "string \<Rightarrow> string" where
  "not_a_function callee = callee @ '' is not a function''"

definition cannot_destructure :: "string \<Rightarrow> string" where
  "cannot_destructure what =
     ''Cannot destructure property '' @ [CHR 0x27] @ ''requestId'' @ [CHR 0x27] @ '' of '' @
     [CHR 0x27] @ ''data'' @ [CHR 0x27] @ '' as it is '' @ what @ ''.''"

text \<open>
  Property read \<open>v.k\<close>, for the property names this program reads (none of them is an
  index): reading a property of \<open>undefined\<close> or \<open>null\<close> throws a TypeError (\<open>Inl\<close>), an
  absent property reads as \<open>undefined\<close>.
\<close>

fun js_get :: "jsval \<Rightarrow> string \<Rightarrow> jsval + jsval" where
  "js_get JUndefined k = Inl (type_error (cannot_read ''undefined'' k))"
| "js_get JNull k = Inl (type_error (cannot_read ''null'' k))"
| "js_get (JObj kvs) k = Inr (case map_of kvs k of None \<Rightarrow> JUndefined | Some v \<Rightarrow> v)"
| "js_get (JArr xs) k = Inr (if k = ''length'' then JNum (int (length xs)) else JUndefined)"
| "js_get (JStr s) k = Inr (if k = ''length'' then JNum (int (length s)) else JUndefined)"
| "js_get (JBool b) k = Inr JUndefined"
| "js_get (JNum n) k = Inr JUndefined"

text \<open>Truthiness, as tested by \<open>!\<close>, \<open>||\<close>, \<open>&&\<close> and \<open>? :\<close>.\<close>

fun truthy :: "jsval \<Rightarrow> bool" where
  "truthy JUndefined = False"
| "truthy JNull = False"
| "truthy (JBool b) = b"
| "truthy (JNum n) = (n \<noteq> 0)"
| "truthy (JStr s) = (s \<noteq> [])"
| "truthy (JArr xs) = True"
| "truthy (JObj kvs) = True"

definition js_or :: "jsval \<Rightarrow> jsval \<Rightarrow> jsval" where
  "js_or a b = (if truthy a then a else b)"

text \<open>
  A step that may throw is a value of a sum type, \<open>Inl\<close> holding what was thrown;
  \<open>and_then\<close> goes on with the value of a step that did not throw.
\<close>

definition and_then :: "'e + 'a \<Rightarrow> ('a \<Rightarrow> 'e + 'b) \<Rightarrow> 'e + 'b" where
  "and_then x f = (case x of Inl ex \<Rightarrow> Inl ex | Inr v \<Rightarrow> f v)"

text \<open>
  The decimal digits of an integer. This is how JavaScript writes an integer between
  \<open>-(2^53 - 1)\<close> and \<open>2^53 - 1\<close>, the range in which every integer is a number of the
  language.
\<close>

fun digits :: "nat \<Rightarrow> string" where
  "digits n =
     (if n < 10 then [char_of (48 + n)] else digits (n div 10) @ [char_of (48 + n mod 10)])"

declare digits.simps [simp del]

definition show_int :: "int \<Rightarrow> string" where
  "show_int i = (if i < 0 then CHR ''-'' # digits (nat (- i)) else digits (nat i))"

definition safe_integer :: "int \<Rightarrow> bool" where
  "safe_integer n = (- 9007199254740991 \<le> n \<and> n \<le> 9007199254740991)"

fun join :: "string list \<Rightarrow> string" where
  "join [] = []"
| "join [s] = s"
| "join (s # t # ss) = s @ '','' @ join (t # ss)"

section \<open>The logic module, the file system and the worker's state\<close>

text \<open>
  How an awaited call of a capability of the logic module ends: the promise resolves
  (or the function returns a plain value), it rejects (or the function throws), or it never
  settles and the \<open>await\<close> never resumes.
\<close>

datatype outcome = Returns jsval | Throws jsval | Hangs

text \<open>A property of the loaded module: a piece of data (\<open>undefined\<close> when absent) or a function.\<close>

datatype 'f member = Data jsval | Func 'f

fun member_truthy :: "'f member \<Rightarrow> bool" where
  "member_truthy (Data v) = truthy v"
| "member_truthy (Func f) = True"

text \<open>
  The four capabilities the worker calls. \<open>processBatch\<close> also receives the progress
  callback: its model returns the arguments of its calls of the callback, in order, beside
  its outcome.
\<close>

record exports =
  processBatch :: "(jsval \<Rightarrow> jsval \<Rightarrow> jsval \<Rightarrow> jsval list \<times> outcome) member"
  verifyLoginDetails :: "(jsval \<Rightarrow> jsval \<Rightarrow> outcome) member"
  getInventoryList :: "(jsval \<Rightarrow> jsval \<Rightarrow> outcome) member"
  verifyMeter :: "(jsval \<Rightarrow> jsval \<Rightarrow> outcome) member"

text \<open>
  The variable \<open>logic\<close> (line 57): \<open>undefined\<close> until a load succeeds, then whatever the
  file assigned to \<open>module.exports\<close>: plain data, or an object with the members above.
\<close>

datatype logic_value = Plain jsval | Module exports

text \<open>The file at \<open>LOGIC_PATH\<close>: absent, present but unreadable, or its bytes.\<close>

datatype logic_file = Absent | Unreadable | Content "8 word list"

datatype load_result = LoadThrows | Loaded logic_value

text \<open>
  What the runtime provides and the repository does not define: the MD5 digest in
  hexadecimal (\<open>crypto\<close>), the UTF-8 encoding of a string written to a file (\<open>fs\<close>), the
  evaluation of a file's content by \<open>require\<close>, which throws on a syntax error or on an
  exception of the module's top level, the text the engine gives a number outside the range
  of \<open>safe_integer\<close> (exponent notation from \<open>10^21\<close> on, the digits of the nearest
  number of the language below), and the message of the TypeError with which \<open>fs\<close>
  refuses to write a value that is not a string.
\<close>

record env =
  md5hex :: "8 word list \<Rightarrow> string"
  utf8 :: "string \<Rightarrow> 8 word list"
  require :: "8 word list \<Rightarrow> load_result"
  number_text :: "int \<Rightarrow> string"
  invalid_data :: "jsval \<Rightarrow> string"

subsection \<open>Conversion to a string\<close>

text \<open>
  The conversion applied by a template literal \<open>`${v}`\<close> and by \<open>"..." + v\<close>. It is
  the same for both on the data modelled here. An object is converted by its \<open>toString\<close>:
  the inherited one gives \<open>[object Object]\<close>; an own property of that name is data, not a
  function, and then the conversion throws a TypeError. An array joins the conversions of
  its elements, \<open>undefined\<close> and \<open>null\<close> giving the empty string, and throws when an
  element does.
\<close>

definition cannot_convert :: string where
  "cannot_convert = ''Cannot convert object to primitive value''"

fun to_string :: "env \<Rightarrow> jsval \<Rightarrow> jsval + string"
  and element_strings :: "env \<Rightarrow> jsval list \<Rightarrow> jsval + string list" where
  "to_string e JUndefined = Inr ''undefined''"
| "to_string e JNull = Inr ''null''"
| "to_string e (JBool b) = Inr (if b then ''true'' else ''false'')"
| "to_string e (JNum n) = Inr (if safe_integer n then show_int n else number_text e n)"
| "to_string e (JStr s) = Inr s"
| "to_string e (JArr xs) = and_then (element_strings e xs) (\<lambda>ss. Inr (join ss))"
| "to_string e (JObj kvs) =
     (if map_of kvs ''toString'' \<noteq> None then Inl (type_error cannot_convert)
      else Inr ''[object Object]'')"
| "element_strings e [] = Inr []"
| "element_strings e (x # xs) =
     and_then (if x = JUndefined \<or> x = JNull then Inr [] else to_string e x) (\<lambda>s.
     and_then (element_strings e xs) (\<lambda>ss. Inr (s # ss)))"

text \<open>
  The worker's state: the module variable, the logic file, the error the next write of the
  file would raise (if any), the clock in milliseconds and, for every interval timer started
  by \<open>setInterval\<close>, the time it fires next. The source never clears a timer.
\<close>

record worker =
  logic :: logic_value
  disk :: logic_file
  write_fault :: "string option"
  now :: nat
  intervals :: "nat list"

text \<open>
  What a handler does to the outside, in order: a message sent on the socket, a capability
  of the logic module called (the callback argument left out), a line on \<open>console.error\<close>
  (its arguments, without the leading pictograph). Lines of \<open>console.log\<close> are not traced;
  the expressions they evaluate are, where they can throw.
\<close>

datatype effect =
    Emit string "jsval list"
  | Invoke string "jsval list"
  | ConsoleError "jsval list"

subsection \<open>Loading the logic (lines 58--75) and hashing the file (lines 79--87)\<close>

text \<open>The test \<open>logic && logic.processBatch\<close>, whose negation guards \<open>execute_task\<close>.\<close>

fun ready :: "logic_value \<Rightarrow> bool" where
  "ready (Plain v) =
     (truthy v \<and> (case js_get v ''processBatch'' of Inl e \<Rightarrow> False | Inr p \<Rightarrow> truthy p))"
| "ready (Module m) = member_truthy (processBatch m)"

text \<open>
  \<open>loadLogic\<close>: every exception of \<open>require\<close> is caught; the variable is assigned only
  when \<open>require\<close> returns. The result is the function's boolean.
\<close>

definition loadLogic :: "env \<Rightarrow> worker \<Rightarrow> bool \<times> worker" where
  "loadLogic e s =
     (case disk s of
        Absent \<Rightarrow> (False, s)
      | Unreadable \<Rightarrow> (False, s)
      | Content bytes \<Rightarrow>
          (case require e bytes of
             LoadThrows \<Rightarrow> (False, s)
           | Loaded m \<Rightarrow> (ready m, s\<lparr>logic := m\<rparr>)))"

definition getLocalHash :: "env \<Rightarrow> worker \<Rightarrow> jsval" where
  "getLocalHash e s =
     (case disk s of
        Absent \<Rightarrow> JNull
      | Unreadable \<Rightarrow> JNull
      | Content bytes \<Rightarrow> JStr (md5hex e bytes))"

subsection \<open>Connection (lines 104--112) and the heartbeat timers\<close>

definition on_connect :: "env \<Rightarrow> worker \<Rightarrow> effect list \<times> worker" where
  "on_connect e s =
     ([Emit ''check_version'' [getLocalHash e s]],
      s\<lparr>intervals := intervals s @ [now s + 10000]\<rparr>)"

text \<open>
  The timers of the runtime: when the clock reaches the time of an interval timer, its
  callback \<open>() => socket.emit('heartbeat')\<close> runs and the timer is set 10000 ms later.
\<close>

definition fire_due :: "worker \<Rightarrow> effect list \<times> worker" where
  "fire_due s =
     (concat (map (\<lambda>d. if d = now s then [Emit ''heartbeat'' []] else []) (intervals s)),
      s\<lparr>intervals := map (\<lambda>d. if d = now s then d + 10000 else d) (intervals s)\<rparr>)"

fun advance :: "nat \<Rightarrow> worker \<Rightarrow> effect list \<times> worker" where
  "advance 0 s = ([], s)"
| "advance (Suc k) s =
     (let (es, s1) = fire_due (s\<lparr>now := now s + 1\<rparr>);
          (es', s2) = advance k s1
      in (es @ es', s2))"

definition heartbeats :: "effect list \<Rightarrow> nat" where
  "heartbeats es = length (filter (\<lambda>x. x = Emit ''heartbeat'' []) es)"

subsection \<open>Receiving an update (lines 119--129)\<close>

text \<open>
  \<open>fs.writeFileSync(LOGIC_PATH, v)\<close>: a string is written as its UTF-8 bytes, replacing
  the file; any other data is refused with a TypeError; a failing write raises the file
  system's error and leaves the file as it was.
\<close>

definition writeFileSync :: "env \<Rightarrow> worker \<Rightarrow> jsval \<Rightarrow> jsval + worker" where
  "writeFileSync e s v =
     (case v of
        JStr c \<Rightarrow>
          (case write_fault s of
             Some msg \<Rightarrow> Inl (JObj [(''message'', JStr msg)])
           | None \<Rightarrow> Inr (s\<lparr>disk := Content (utf8 e c)\<rparr>))
      | _ \<Rightarrow> Inl (type_error (invalid_data e v)))"

text \<open>
  The handler: the whole body is inside \<open>try\<close>; the \<open>catch\<close> reads \<open>e.message\<close>, and an
  exception of the \<open>catch\<close> itself (\<open>Inl\<close>) would leave the handler uncaught.
\<close>

definition update_failed :: "worker \<Rightarrow> jsval \<Rightarrow> jsval + effect list \<times> worker" where
  "update_failed s ex =
     (case js_get ex ''message'' of
        Inl x \<Rightarrow> Inl x
      | Inr m \<Rightarrow> Inr ([ConsoleError [JStr ''Update failed:'', m]], s))"

definition on_update_logic_file :: "env \<Rightarrow> worker \<Rightarrow> jsval \<Rightarrow> jsval + effect list \<times> worker" where
  "on_update_logic_file e s data =
     (case js_get data ''content'' of
        Inl ex \<Rightarrow> update_failed s ex
      | Inr content \<Rightarrow>
          (case writeFileSync e s content of
             Inl ex \<Rightarrow> update_failed s ex
           | Inr s1 \<Rightarrow> Inr ([], snd (loadLogic e s1))))"

subsection \<open>Executing a task (lines 138--203)\<close>

text \<open>
  The handler is an \<open>async\<close> function: it runs until an \<open>await\<close>, is suspended while the
  awaited call is pending (other events are handled meanwhile) and goes on when the call
  settles. A suspended handler is its continuation: the \<open>await\<close> it stopped at, with the
  local variables it still needs (\<open>requestId\<close>, and \<open>payload\<close> where it is read later).
\<close>

datatype cont =
    PassThrough jsval
  | InventoryLogin jsval jsval
  | InventoryList jsval
  | CheckLogin jsval jsval
  | CheckMeter jsval

fun request_of :: "cont \<Rightarrow> jsval" where
  "request_of (PassThrough r) = r"
| "request_of (InventoryLogin r p) = r"
| "request_of (InventoryList r) = r"
| "request_of (CheckLogin r p) = r"
| "request_of (CheckMeter r) = r"

text \<open>
  A stretch of the \<open>try\<close> block ends with \<open>result\<close> assigned, or at an \<open>await\<close> (with what
  it did so far, the continuation and the outcome of the awaited call), or by an exception
  (\<open>Inl\<close>).
\<close>

datatype step = Result jsval | Suspend "effect list" cont outcome

text \<open>
  The handler is done, or suspended on a call with the given outcome, or it has thrown
  outside its \<open>try\<close> block: the promise of the \<open>async\<close> function rejects, and nothing
  handles the rejection.
\<close>

datatype status = Finished | Awaiting cont outcome | Unhandled jsval

text \<open>\<open>logic.k\<close>, read from the module variable as it is when the expression is evaluated.\<close>

fun member_of :: "logic_value \<Rightarrow> (exports \<Rightarrow> 'f member) \<Rightarrow> string \<Rightarrow> jsval + 'f member" where
  "member_of (Plain v) sel k = and_then (js_get v k) (\<lambda>x. Inr (Data x))"
| "member_of (Module m) sel k = Inr (sel m)"

definition callee :: "string \<Rightarrow> 'f member \<Rightarrow> jsval + 'f" where
  "callee k m =
     (case m of
        Data v \<Rightarrow> Inl (type_error (not_a_function (''logic.'' @ k)))
      | Func f \<Rightarrow> Inr f)"

text \<open>
  A call \<open>await logic.k(a, b)\<close>: the member is read, then the arguments are evaluated, then
  the member is called, which throws when it is not a function.
\<close>

definition call2 ::
  "string \<Rightarrow> jsval + (jsval \<Rightarrow> jsval \<Rightarrow> outcome) member \<Rightarrow> jsval + jsval \<Rightarrow> jsval + jsval \<Rightarrow>
   cont \<Rightarrow> jsval + step" where
  "call2 k member a b c =
     and_then member (\<lambda>m.
     and_then a (\<lambda>x.
     and_then b (\<lambda>y.
     and_then (callee k m) (\<lambda>f.
       Inr (Suspend [Invoke k [x, y]] c (f x y))))))"

text \<open>
  \<open>sendProgress\<close> (lines 150--153): the line written to \<open>stdout\<close> reads and converts
  \<open>progressData.current\<close>, \<open>.total\<close> and \<open>.status\<close> first, so a call whose argument
  makes one of these throw goes back into the capability before anything is sent.
\<close>

definition sendProgress :: "env \<Rightarrow> jsval \<Rightarrow> jsval \<Rightarrow> effect list" where
  "sendProgress e requestId progressData =
     (case and_then (js_get progressData ''current'') (\<lambda>current.
           and_then (to_string e current) (\<lambda>t1.
           and_then (js_get progressData ''total'') (\<lambda>total.
           and_then (to_string e total) (\<lambda>t2.
           and_then (js_get progressData ''status'') (\<lambda>status.
             to_string e status))))) of
        Inl ex \<Rightarrow> []
      | Inr t3 \<Rightarrow>
          [Emit ''task_progress''
             [JObj [(''requestId'', requestId), (''progress'', progressData)]]])"

text \<open>The \<open>switch\<close> (lines 157--195), up to its first \<open>await\<close>.\<close>

definition dispatch :: "env \<Rightarrow> worker \<Rightarrow> jsval \<Rightarrow> jsval \<Rightarrow> jsval \<Rightarrow> jsval + step" where
  "dispatch e s requestId taskType payload =
     (if taskType = JStr ''METER_POST'' \<or> taskType = JStr ''FAST_POST'' then
        and_then (member_of (logic s) processBatch ''processBatch'') (\<lambda>m.
        and_then (js_get payload ''userid'') (\<lambda>userid.
        and_then (js_get payload ''password'') (\<lambda>password.
        and_then (js_get payload ''meters'') (\<lambda>meters.
        and_then (callee ''processBatch'' m) (\<lambda>f.
          let (progress, out) = f userid password meters
          in Inr (Suspend
               (Invoke ''processBatch'' [userid, password, meters] #
                concat (map (sendProgress e requestId) progress))
               (PassThrough requestId) out))))))
      else if taskType = JStr ''LOGIN_CHECK'' then
        call2 ''verifyLoginDetails''
          (member_of (logic s) verifyLoginDetails ''verifyLoginDetails'')
          (js_get payload ''userid'') (js_get payload ''password'')
          (PassThrough requestId)
      else if taskType = JStr ''INVENTORY'' then
        call2 ''verifyLoginDetails''
          (member_of (logic s) verifyLoginDetails ''verifyLoginDetails'')
          (js_get payload ''userid'') (js_get payload ''password'')
          (InventoryLogin requestId payload)
      else if taskType = JStr ''SINGLE_CHECK'' then
        call2 ''verifyLoginDetails''
          (member_of (logic s) verifyLoginDetails ''verifyLoginDetails'')
          (js_get payload ''userid'') (js_get payload ''password'')
          (CheckLogin requestId payload)
      else Inr (Result (JObj [(''error'', JStr ''Unknown Task Type'')])))"

text \<open>
  The \<open>try\<close> block after an \<open>await\<close> has resolved with \<open>v\<close>, up to the next \<open>await\<close> or
  to \<open>break\<close>. The module variable is read from the state the worker has then. The
  concatenation of line 174 and the log line 178 convert \<open>authInv.message\<close> and
  \<open>data.length\<close> to strings, which can throw.
\<close>

fun continue :: "env \<Rightarrow> worker \<Rightarrow> cont \<Rightarrow> jsval \<Rightarrow> jsval + step" where
  "continue e s (PassThrough requestId) v = Inr (Result v)"
| "continue e s (InventoryLogin requestId payload) authInv =
     and_then (js_get authInv ''success'') (\<lambda>success.
       if \<not> truthy success then
         and_then (js_get authInv ''message'') (\<lambda>message.
         and_then (to_string e message) (\<lambda>text.
           Inr (Result (JObj [(''error'', JStr (''Login Failed: '' @ text))]))))
       else
         call2 ''getInventoryList''
           (member_of (logic s) getInventoryList ''getInventoryList'')
           (js_get authInv ''cookies'')
           (and_then (js_get payload ''limit'') (\<lambda>limit. Inr (js_or limit (JNum 50))))
           (InventoryList requestId))"
| "continue e s (InventoryList requestId) data =
     and_then (js_get data ''length'') (\<lambda>len.
     and_then (to_string e len) (\<lambda>text.
       Inr (Result (JObj [(''status'', JStr ''success''), (''count'', len), (''data'', data)]))))"
| "continue e s (CheckLogin requestId payload) auth =
     and_then (js_get auth ''success'') (\<lambda>success.
       if \<not> truthy success then Inr (Result (JObj [(''error'', JStr ''Login Failed'')]))
       else
         call2 ''verifyMeter''
           (member_of (logic s) verifyMeter ''verifyMeter'')
           (js_get auth ''cookies'') (js_get payload ''meterNo'')
           (CheckMeter requestId))"
| "continue e s (CheckMeter requestId) check =
     and_then (js_get check ''found'') (\<lambda>found.
       if truthy found then
         and_then (js_get check ''data'') (\<lambda>d.
           Inr (Result (JObj [(''status'', JStr ''found''), (''data'', d)])))
       else Inr (Result (JObj [(''status'', JStr ''not_found'')])))"

text \<open>Lines 201--202: the one place where \<open>task_completed\<close> is sent.\<close>

definition finish :: "jsval \<Rightarrow> jsval \<Rightarrow> effect list \<times> status" where
  "finish requestId result =
     ([Emit ''task_completed'' [JObj [(''requestId'', requestId), (''result'', result)]]],
      Finished)"

text \<open>
  The \<open>catch\<close> block (lines 196--199). Its first line reads \<open>e.message\<close> and converts it
  to a string for \<open>console.error\<close>: when the value thrown is \<open>undefined\<close> or \<open>null\<close>, or
  its message cannot be converted, the \<open>catch\<close> block itself throws, outside any \<open>try\<close>.
\<close>

definition catch :: "env \<Rightarrow> jsval \<Rightarrow> jsval \<Rightarrow> effect list \<times> status" where
  "catch e requestId ex =
     (case and_then (js_get ex ''message'') (\<lambda>m.
           and_then (to_string e m) (\<lambda>text. Inr (m, text))) of
        Inl x \<Rightarrow> ([], Unhandled x)
      | Inr (m, text) \<Rightarrow>
          (let (es, st) = finish requestId (JObj [(''error'', m), (''failed'', JNum 1)])
           in (ConsoleError [JStr (''Error: '' @ text)] # es, st)))"

fun complete :: "env \<Rightarrow> jsval \<Rightarrow> jsval + step \<Rightarrow> effect list \<times> status" where
  "complete e requestId (Inl ex) = catch e requestId ex"
| "complete e requestId (Inr (Result r)) = finish requestId r"
| "complete e requestId (Inr (Suspend es c out)) = (es, Awaiting c out)"

text \<open>
  Lines 146--147, before the \<open>try\<close>: the message is destructured, and the log line
  converts \<open>taskType\<close> to a string and then evaluates \<open>requestId.substring(0,6)\<close>.
\<close>

definition destructure :: "jsval \<Rightarrow> jsval + jsval \<times> jsval \<times> jsval" where
  "destructure data =
     (if data = JUndefined then Inl (type_error (cannot_destructure ''undefined''))
      else if data = JNull then Inl (type_error (cannot_destructure ''null''))
      else
        and_then (js_get data ''requestId'') (\<lambda>requestId.
        and_then (js_get data ''taskType'') (\<lambda>taskType.
        and_then (js_get data ''payload'') (\<lambda>payload.
          Inr (requestId, taskType, payload)))))"

fun substring06 :: "jsval \<Rightarrow> jsval + string" where
  "substring06 (JStr r) = Inr (take 6 r)"
| "substring06 JUndefined = Inl (type_error (cannot_read ''undefined'' ''substring''))"
| "substring06 JNull = Inl (type_error (cannot_read ''null'' ''substring''))"
| "substring06 v = Inl (type_error (not_a_function ''requestId.substring''))"

text \<open>The handler from the arrival of the message to its first \<open>await\<close> (or its end).\<close>

definition start_task :: "env \<Rightarrow> worker \<Rightarrow> jsval \<Rightarrow> effect list \<times> status" where
  "start_task e s data =
     (if \<not> ready (logic s) then ([Emit ''check_version'' [getLocalHash e s]], Finished)
      else
        (case and_then (destructure data) (\<lambda>(requestId, taskType, payload).
              and_then (to_string e taskType) (\<lambda>text.
              and_then (substring06 requestId) (\<lambda>prefix.
                Inr (requestId, taskType, payload)))) of
           Inl ex \<Rightarrow> ([], Unhandled ex)
         | Inr (requestId, taskType, payload) \<Rightarrow>
             complete e requestId (dispatch e s requestId taskType payload)))"

text \<open>
  The handler resumed in state \<open>s\<close> when the call it awaits has settled: a rejection goes to
  the \<open>catch\<close> block, a value to the rest of the \<open>try\<close> block.
\<close>

fun resume :: "env \<Rightarrow> worker \<Rightarrow> cont \<Rightarrow> jsval + jsval \<Rightarrow> effect list \<times> status" where
  "resume e s c (Inl ex) = catch e (request_of c) ex"
| "resume e s c (Inr v) = complete e (request_of c) (continue e s c v)"

text \<open>
  One task run with no other event in between: each awaited call settles as its outcome
  says and the handler is resumed in the same state. A call that never settles leaves the
  handler suspended. No route through the \<open>switch\<close> has more than two \<open>await\<close>s.
\<close>

fun settle :: "env \<Rightarrow> worker \<Rightarrow> effect list \<times> status \<Rightarrow> effect list \<times> status" where
  "settle e s (es, Awaiting c (Returns v)) =
     (let (es', st) = resume e s c (Inr v) in (es @ es', st))"
| "settle e s (es, Awaiting c (Throws ex)) =
     (let (es', st) = resume e s c (Inl ex) in (es @ es', st))"
| "settle e s (es, st) = (es, st)"

definition on_execute_task :: "env \<Rightarrow> worker \<Rightarrow> jsval \<Rightarrow> effect list \<times> status" where
  "on_execute_task e s data = settle e s (settle e s (start_task e s data))"

section \<open>Observations on a trace, and example inputs\<close>

text \<open>The payloads of the \<open>task_completed\<close> messages of a trace, in order.\<close>

fun completed :: "effect list \<Rightarrow> jsval list" where
  "completed [] = []"
| "completed (Emit name args # es) =
     (if name = ''task_completed'' then args @ completed es else completed es)"
| "completed (x # es) = completed es"

text \<open>The argument lists of the calls of capability \<open>k\<close> in a trace, in order.\<close>

fun invocations :: "string \<Rightarrow> effect list \<Rightarrow> jsval list list" where
  "invocations k [] = []"
| "invocations k (Invoke name args # es) =
     (if name = k then args # invocations k es else invocations k es)"
| "invocations k (x # es) = invocations k es"

text \<open>
  An awaited call settles, for the handler, when it resolves, or rejects with a value whose
  \<open>message\<close> the \<open>catch\<close> block can read and convert.
\<close>

fun settles :: "env \<Rightarrow> outcome \<Rightarrow> bool" where
  "settles e (Returns v) = True"
| "settles e (Throws ex) =
     (case and_then (js_get ex ''message'') (to_string e) of Inl x \<Rightarrow> False | Inr text \<Rightarrow> True)"
| "settles e Hangs = False"

text \<open>The outcomes of the calls that the run of one task awaits, in order.\<close>

definition awaited :: "env \<Rightarrow> worker \<Rightarrow> jsval \<Rightarrow> outcome list" where
  "awaited e s data =
     (case start_task e s data of
        (es, Awaiting c Hangs) \<Rightarrow> [Hangs]
      | (es, Awaiting c out) \<Rightarrow>
          out # (case settle e s (es, Awaiting c out) of
                   (es', Awaiting c' out') \<Rightarrow> [out']
                 | (es', st) \<Rightarrow> [])
      | (es, st) \<Rightarrow> [])"

text \<open>A task message as the coordinator sends it.\<close>

definition task :: "string \<Rightarrow> string \<Rightarrow> jsval \<Rightarrow> jsval" where
  "task requestId taskType payload =
     JObj [(''requestId'', JStr requestId), (''taskType'', JStr taskType), (''payload'', payload)]"

text \<open>
  A logic module for the examples: the login succeeds with the password \<open>secret\<close>, the
  inventory lists one meter and echoes the limit it was given, meter \<open>1001\<close> exists.
\<close>

definition batch_A :: "jsval \<Rightarrow> jsval \<Rightarrow> jsval \<Rightarrow> jsval list \<times> outcome" where
  "batch_A userid password meters =
     ([JObj [(''current'', JNum 1), (''total'', JNum 1), (''status'', JStr ''ok'')]],
      Returns (JObj [(''success'', JNum 1), (''failed'', JNum 0)]))"

definition login_A :: "jsval \<Rightarrow> jsval \<Rightarrow> outcome" where
  "login_A userid password =
     (if password = JStr ''secret''
      then Returns (JObj [(''success'', JBool True), (''cookies'', JStr ''sid=1'')])
      else Returns (JObj [(''success'', JBool False), (''message'', JStr ''Invalid password'')]))"

definition inventory_A :: "jsval \<Rightarrow> jsval \<Rightarrow> outcome" where
  "inventory_A cookies limit = Returns (JArr [JStr ''meter of A'', limit])"

definition meter_A :: "jsval \<Rightarrow> jsval \<Rightarrow> outcome" where
  "meter_A cookies meterNo =
     (if meterNo = JStr ''1001''
      then Returns (JObj [(''found'', JBool True), (''data'', JStr ''meter 1001'')])
      else Returns (JObj [(''found'', JBool False)]))"

definition module_A :: exports where
  "module_A =
     \<lparr> processBatch = Func batch_A, verifyLoginDetails = Func login_A,
       getInventoryList = Func inventory_A, verifyMeter = Func meter_A \<rparr>"

text \<open>A later version of the module: its inventory lists another meter.\<close>

definition inventory_B :: "jsval \<Rightarrow> jsval \<Rightarrow> outcome" where
  "inventory_B cookies limit = Returns (JArr [JStr ''meter of B''])"

definition module_B :: exports where
  "module_B = module_A \<lparr> getInventoryList := Func inventory_B \<rparr>"

text \<open>Modules whose batch call never settles, or rejects with an \<open>Error\<close>.\<close>

definition batch_hanging :: "jsval \<Rightarrow> jsval \<Rightarrow> jsval \<Rightarrow> jsval list \<times> outcome" where
  "batch_hanging userid password meters = ([], Hangs)"

definition batch_throwing :: "jsval \<Rightarrow> jsval \<Rightarrow> jsval \<Rightarrow> jsval list \<times> outcome" where
  "batch_throwing userid password meters =
     ([], Throws (JObj [(''message'', JStr ''session expired'')]))"

definition module_hanging :: exports where
  "module_hanging = module_A \<lparr> processBatch := Func batch_hanging \<rparr>"

definition module_throwing :: exports where
  "module_throwing = module_A \<lparr> processBatch := Func batch_throwing \<rparr>"

text \<open>Modules that export \<open>processBatch\<close> but not every other capability.\<close>

definition module_batch_only :: exports where
  "module_batch_only =
     module_A \<lparr> verifyLoginDetails := Data JUndefined, getInventoryList := Data JUndefined,
                verifyMeter := Data JUndefined \<rparr>"

definition module_no_inventory :: exports where
  "module_no_inventory = module_A \<lparr> getInventoryList := Data JUndefined \<rparr>"

definition module_no_meter :: exports where
  "module_no_meter = module_A \<lparr> verifyMeter := Data JUndefined \<rparr>"

text \<open>A module whose inventory call rejects with an \<open>Error\<close>.\<close>

definition inventory_throwing :: "jsval \<Rightarrow> jsval \<Rightarrow> outcome" where
  "inventory_throwing cookies limit = Throws (JObj [(''message'', JStr ''portal unreachable'')])"

definition module_inventory_throwing :: exports where
  "module_inventory_throwing = module_A \<lparr> getInventoryList := Func inventory_throwing \<rparr>"

text \<open>
  A runtime for the examples: strings of ASCII characters are encoded byte by byte, the
  digest is a stand-in (the bytes themselves, as characters), and the content of a file is
  evaluated by its first byte: \<open>B\<close> is the text of \<open>module_B\<close>, \<open>/\<close> starts the
  placeholder file, which exports an empty object, and nothing else parses. The last two
  fields are stand-ins as well.
\<close>

definition demo_env :: env where
  "demo_env =
     \<lparr> md5hex = map (\<lambda>w. char_of (unat w)),
       utf8 = map (\<lambda>c. of_nat (of_char c)),
       require = (\<lambda>bytes.
         case bytes of
           [] \<Rightarrow> Loaded (Plain (JObj []))
         | b # bs \<Rightarrow>
             if b = 66 then Loaded (Module module_B)
             else if b = 47 then Loaded (Plain (JObj []))
             else LoadThrows),
       number_text = show_int,
       invalid_data = (\<lambda>v. ''The data argument must be of type string'') \<rparr>"

text \<open>
  A worker whose logic file is only a comment, as the placeholder written at line 39 is, so
  that the load at line 76 gave an empty object; and a worker that has loaded \<open>module_A\<close>.
\<close>

definition worker0 :: worker where
  "worker0 =
     \<lparr> logic = Plain (JObj []), disk = Content [47, 47], write_fault = None, now = 0,
       intervals = [] \<rparr>"

definition worker_A :: worker where
  "worker_A = worker0 \<lparr> logic := Module module_A, disk := Content [65] \<rparr>"

text \<open>The worker once the update \<open>B\<close> has been written and loaded.\<close>

definition worker_B :: worker where
  "worker_B = worker_A \<lparr> logic := Module module_B, disk := Content [66] \<rparr>"

section \<open>Auxiliary notions for the proofs\<close>

text \<open>
  What every stage of a task with request id \<open>rid\<close> satisfies: once done it has sent exactly
  one \<open>task_completed\<close>, tagged \<open>rid\<close>; while suspended it has sent none and its
  continuation still carries \<open>rid\<close>; it escapes only with a TypeError, having sent none.
\<close>

definition outcome_ok :: "jsval \<Rightarrow> effect list \<times> status \<Rightarrow> bool" where
  "outcome_ok rid x =
     (case x of
        (es, Finished) \<Rightarrow> (\<exists>r. completed es = [JObj [(''requestId'', rid), (''result'', r)]])
      | (es, Awaiting c out) \<Rightarrow> completed es = [] \<and> request_of c = rid
      | (es, Unhandled ex) \<Rightarrow>
          completed es = [] \<and> (\<exists>msg. ex = type_error msg))"

text \<open>The continuations after which the handler has no further \<open>await\<close>.\<close>

fun last_await :: "cont \<Rightarrow> bool" where
  "last_await (InventoryLogin r p) = False"
| "last_await (CheckLogin r p) = False"
| "last_await c = True"

section \<open>Properties\<close>

subsection \<open>Every stage of a task\<close>

lemma and_then_simps [simp]:
  "and_then (Inr v) f = f v" "and_then (Inl ex) f = Inl ex"
  by (simp_all add: and_then_def)

lemma and_then_Inr_iff: "and_then x f = Inr y \<longleftrightarrow> (\<exists>v. x = Inr v \<and> f v = Inr y)"
  by (cases x) simp_all

lemma and_then_Inl_iff:
  "and_then x f = Inl ex \<longleftrightarrow> x = Inl ex \<or> (\<exists>v. x = Inr v \<and> f v = Inl ex)"
  by (cases x) simp_all

lemma to_string_Inl:
  "to_string e v = Inl ex \<Longrightarrow> ex = type_error cannot_convert"
  "element_strings e vs = Inl ex \<Longrightarrow> ex = type_error cannot_convert"
  by (induction e v and e vs arbitrary: ex and ex rule: to_string_element_strings.induct)
    (auto simp: and_then_Inl_iff split: if_splits)

lemma to_string_JStr [simp]: "to_string e (JStr t) = Inr t"
  by simp

lemma js_get_Inl: "js_get v k = Inl ex \<Longrightarrow> \<exists>msg. ex = type_error msg"
  by (cases v) auto

lemma member_of_Inl: "member_of l sel k = Inl ex \<Longrightarrow> \<exists>msg. ex = type_error msg"
  by (cases l) (auto simp: and_then_Inl_iff dest: js_get_Inl)

lemma callee_Inl: "callee k m = Inl ex \<Longrightarrow> \<exists>msg. ex = type_error msg"
  by (cases m) (auto simp: callee_def)

lemma call2_Inl:
  assumes "call2 k m a b c = Inl ex"
      and "\<And>x. m = Inl x \<Longrightarrow> \<exists>msg. x = type_error msg"
      and "\<And>x. a = Inl x \<Longrightarrow> \<exists>msg. x = type_error msg"
      and "\<And>x. b = Inl x \<Longrightarrow> \<exists>msg. x = type_error msg"
  shows "\<exists>msg. ex = type_error msg"
  using assms by (auto simp: call2_def and_then_Inl_iff dest: callee_Inl)

lemma dispatch_Inl:
  assumes "dispatch e s rid tt p = Inl ex"
  shows "\<exists>msg. ex = type_error msg"
proof -
  have login: "\<exists>msg. ex = type_error msg"
    if "call2 ''verifyLoginDetails''
          (member_of (logic s) verifyLoginDetails ''verifyLoginDetails'')
          (js_get p ''userid'') (js_get p ''password'') c = Inl ex" for c
    using that by (rule call2_Inl) (auto dest: member_of_Inl js_get_Inl)
  show ?thesis
    using assms login
    by (auto simp: dispatch_def and_then_Inl_iff case_prod_beta split: if_splits
        dest: member_of_Inl js_get_Inl callee_Inl)
qed

lemma continue_Inl:
  assumes "continue e s c v = Inl ex"
  shows "\<exists>msg. ex = type_error msg"
proof (cases c)
  case (InventoryLogin r p)
  have "\<exists>msg. ex = type_error msg"
    if "call2 ''getInventoryList'' (member_of (logic s) getInventoryList ''getInventoryList'')
          (js_get v ''cookies'')
          (and_then (js_get p ''limit'') (\<lambda>limit. Inr (js_or limit (JNum 50))))
          (InventoryList r) = Inl ex"
    using that
    by (rule call2_Inl) (auto simp: and_then_Inl_iff dest: member_of_Inl js_get_Inl)
  with assms InventoryLogin show ?thesis
    by (auto simp: and_then_Inl_iff split: if_splits dest: js_get_Inl to_string_Inl)
next
  case (CheckLogin r p)
  have "\<exists>msg. ex = type_error msg"
    if "call2 ''verifyMeter'' (member_of (logic s) verifyMeter ''verifyMeter'')
          (js_get v ''cookies'') (js_get p ''meterNo'') (CheckMeter r) = Inl ex"
    using that by (rule call2_Inl) (auto dest: member_of_Inl js_get_Inl)
  with assms CheckLogin show ?thesis
    by (auto simp: and_then_Inl_iff split: if_splits dest: js_get_Inl)
qed (use assms in \<open>auto simp: and_then_Inl_iff split: if_splits dest: js_get_Inl to_string_Inl\<close>)

lemma completed_append [simp]: "completed (es @ es') = completed es @ completed es'"
  by (induction es rule: completed.induct) simp_all

lemma completed_progress [simp]: "completed (concat (map (sendProgress e rid) ps)) = []"
  by (induction ps) (simp_all add: sendProgress_def split: sum.splits)

lemma call2_Inr:
  "call2 k m a b c = Inr st \<Longrightarrow> \<exists>x y out. st = Suspend [Invoke k [x, y]] c out"
  by (auto simp: call2_def and_then_Inr_iff)

lemma dispatch_Suspend:
  assumes "dispatch e s rid tt p = Inr (Suspend es c out)"
  shows "completed es = [] \<and> request_of c = rid"
  using assms
  by (auto simp: dispatch_def and_then_Inr_iff case_prod_beta split: if_splits dest!: call2_Inr)

lemma continue_Suspend:
  assumes "continue e s c v = Inr (Suspend es c' out)"
  shows "completed es = [] \<and> request_of c' = request_of c \<and> last_await c' \<and> \<not> last_await c"
  using assms
  by (cases c) (auto simp: and_then_Inr_iff split: if_splits dest!: call2_Inr)

lemma catch_eq:
  assumes "js_get ex ''message'' = Inr m" and "to_string e m = Inr text"
  shows "catch e rid ex =
           ([ConsoleError [JStr (''Error: '' @ text)],
             Emit ''task_completed''
               [JObj [(''requestId'', rid),
                      (''result'', JObj [(''error'', m), (''failed'', JNum 1)])]]],
            Finished)"
  using assms by (simp add: catch_def finish_def)

lemma catch_type_error:
  "catch e r (type_error msg) =
     ([ConsoleError [JStr (''Error: '' @ msg)],
       Emit ''task_completed''
         [JObj [(''requestId'', r),
                (''result'', JObj [(''error'', JStr msg), (''failed'', JNum 1)])]]],
      Finished)"
  by (rule catch_eq) (simp_all add: type_error_def)

lemma catch_cases:
  "(\<exists>m text. js_get ex ''message'' = Inr m \<and> to_string e m = Inr text \<and>
        catch e rid ex =
          ([ConsoleError [JStr (''Error: '' @ text)],
            Emit ''task_completed''
              [JObj [(''requestId'', rid),
                     (''result'', JObj [(''error'', m), (''failed'', JNum 1)])]]],
           Finished))
   \<or> (\<exists>msg. catch e rid ex = ([], Unhandled (type_error msg)))"
proof (cases "js_get ex ''message''")
  case (Inl x)
  then show ?thesis by (auto simp: catch_def dest: js_get_Inl)
next
  case (Inr m)
  show ?thesis
  proof (cases "to_string e m")
    case (Inl x)
    with Inr show ?thesis by (auto simp: catch_def dest: to_string_Inl)
  next
    case (Inr t)
    with \<open>js_get ex ''message'' = Inr m\<close> show ?thesis by (auto simp: catch_eq)
  qed
qed

lemma outcome_ok_catch: "outcome_ok rid (catch e rid ex)"
  using catch_cases [of ex e rid] by (auto simp: outcome_ok_def)

lemma outcome_ok_finish: "outcome_ok rid (finish rid r)"
  by (simp add: outcome_ok_def finish_def)

lemma outcome_ok_complete:
  assumes "\<And>es c out. x = Inr (Suspend es c out) \<Longrightarrow> completed es = [] \<and> request_of c = rid"
  shows "outcome_ok rid (complete e rid x)"
proof (cases x)
  case (Inl ex)
  then show ?thesis by (simp add: outcome_ok_catch)
next
  case (Inr st)
  then show ?thesis using assms
    by (cases st) (simp_all add: outcome_ok_finish, simp add: outcome_ok_def)
qed

lemma outcome_ok_prefix:
  assumes "completed es = []" and "outcome_ok rid (es', st)"
  shows "outcome_ok rid (es @ es', st)"
  using assms by (cases st) (simp_all add: outcome_ok_def)

lemma destructure_eq:
  assumes "js_get data ''requestId'' = Inr r" and "js_get data ''taskType'' = Inr tt"
      and "js_get data ''payload'' = Inr p"
  shows "destructure data = Inr (r, tt, p)"
  using assms by (cases data) (simp_all add: destructure_def)

lemma js_get_total:
  assumes "js_get p k = Inr v"
  shows "\<exists>w. js_get p k' = Inr w"
  using assms by (cases p) simp_all

lemma start_task_eq:
  assumes "ready (logic s)"
      and "js_get data ''requestId'' = Inr (JStr rid)" and "js_get data ''taskType'' = Inr tt"
      and "js_get data ''payload'' = Inr p" and "to_string e tt = Inr text"
  shows "start_task e s data = complete e (JStr rid) (dispatch e s (JStr rid) tt p)"
  using assms by (simp add: start_task_def destructure_eq)

lemma outcome_ok_start:
  assumes "ready (logic s)" and "js_get data ''requestId'' = Inr (JStr rid)"
      and "js_get data ''taskType'' = Inr tt" and "to_string e tt = Inr text"
  shows "outcome_ok (JStr rid) (start_task e s data)"
proof -
  from js_get_total [OF assms(2), of "''payload''"] obtain p
    where p: "js_get data ''payload'' = Inr p" by blast
  have "outcome_ok (JStr rid) (complete e (JStr rid) (dispatch e s (JStr rid) tt p))"
    by (rule outcome_ok_complete) (simp add: dispatch_Suspend)
  with assms p show ?thesis by (simp add: start_task_eq)
qed

lemma outcome_ok_resume: "outcome_ok (request_of c) (resume e s c x)"
proof (cases x)
  case (Inl ex)
  then show ?thesis by (simp add: outcome_ok_catch)
next
  case (Inr v)
  have "outcome_ok (request_of c) (complete e (request_of c) (continue e s c v))"
    by (rule outcome_ok_complete) (simp add: continue_Suspend)
  with Inr show ?thesis by simp
qed

lemma outcome_ok_settle:
  assumes "outcome_ok rid x"
  shows "outcome_ok rid (settle e s x)"
proof (cases x)
  case (Pair es st)
  show ?thesis
  proof (cases st)
    case (Awaiting c out)
    with Pair assms have c: "completed es = []" "request_of c = rid"
      by (simp_all add: outcome_ok_def)
    show ?thesis
    proof (cases out)
      case (Returns v)
      obtain es' st' where r: "resume e s c (Inr v) = (es', st')"
        by (cases "resume e s c (Inr v)")
      with outcome_ok_resume [of c e s "Inr v"] c have "outcome_ok rid (es', st')" by simp
      with c r Pair Awaiting Returns show ?thesis by (simp add: outcome_ok_prefix)
    next
      case (Throws ex)
      obtain es' st' where r: "resume e s c (Inl ex) = (es', st')"
        by (cases "resume e s c (Inl ex)")
      with outcome_ok_resume [of c e s "Inl ex"] c have "outcome_ok rid (es', st')" by simp
      with c r Pair Awaiting Throws show ?thesis by (simp add: outcome_ok_prefix)
    next
      case Hangs
      with Pair Awaiting assms show ?thesis by simp
    qed
  qed (use Pair assms in simp_all)
qed

lemma catch_not_Awaiting: "catch e rid ex \<noteq> (es, Awaiting c out)"
  using catch_cases [of ex e rid] by auto

lemma complete_Awaiting:
  assumes "complete e rid x = (es, Awaiting c out)"
  shows "x = Inr (Suspend es c out)"
proof (cases x)
  case (Inl ex)
  with assms show ?thesis by (simp add: catch_not_Awaiting)
next
  case (Inr st)
  with assms show ?thesis by (cases st) (simp_all add: finish_def)
qed

lemma complete_not_Unhandled:
  assumes "\<And>ex. x = Inl ex \<Longrightarrow> \<exists>msg. ex = type_error msg"
  shows "snd (complete e rid x) \<noteq> Unhandled y"
proof (cases x)
  case (Inl ex)
  with assms obtain msg where "ex = type_error msg" by blast
  with Inl show ?thesis by (simp add: catch_type_error)
next
  case (Inr st)
  then show ?thesis by (cases st) (simp_all add: finish_def)
qed

lemma resume_Awaiting:
  assumes "resume e s c x = (es, Awaiting c' out)"
  shows "last_await c' \<and> \<not> last_await c"
proof (cases x)
  case (Inl ex)
  with assms show ?thesis by (simp add: catch_not_Awaiting)
next
  case (Inr v)
  with assms have "continue e s c v = Inr (Suspend es c' out)"
    by (simp add: complete_Awaiting)
  then show ?thesis by (simp add: continue_Suspend)
qed

lemma resume_settled:
  assumes "settles e out" and "out = Returns v \<and> x = Inr v \<or> out = Throws ex \<and> x = Inl ex"
  shows "snd (resume e s c x) \<noteq> Unhandled y"
proof -
  from assms(2) consider (ret) "out = Returns v" "x = Inr v" | (thr) "out = Throws ex" "x = Inl ex"
    by blast
  then show ?thesis
  proof cases
    case ret
    have "snd (complete e (request_of c) (continue e s c v)) \<noteq> Unhandled y"
      by (rule complete_not_Unhandled) (rule continue_Inl)
    with ret show ?thesis by simp
  next
    case thr
    with assms(1) obtain m t where "js_get ex ''message'' = Inr m" "to_string e m = Inr t"
      by (auto simp: and_then_def split: sum.splits)
    with thr show ?thesis by (simp add: catch_eq)
  qed
qed

lemma settle_Awaiting:
  assumes "settle e s x = (es, Awaiting c out)"
  shows "out = Hangs \<or> last_await c"
proof (cases x)
  case (Pair es0 st)
  show ?thesis
  proof (cases st)
    case (Awaiting c0 out0)
    show ?thesis
    proof (cases out0)
      case (Returns v)
      with assms Pair Awaiting have "\<exists>es'. resume e s c0 (Inr v) = (es', Awaiting c out)"
        by (auto split: prod.splits)
      then obtain es' where "resume e s c0 (Inr v) = (es', Awaiting c out)" ..
      from resume_Awaiting [OF this] show ?thesis by simp
    next
      case (Throws ex)
      with assms Pair Awaiting have "\<exists>es'. resume e s c0 (Inl ex) = (es', Awaiting c out)"
        by (auto split: prod.splits)
      then obtain es' where "resume e s c0 (Inl ex) = (es', Awaiting c out)" ..
      from resume_Awaiting [OF this] show ?thesis by simp
    next
      case Hangs
      with assms Pair Awaiting show ?thesis by simp
    qed
  qed (use Pair assms in simp_all)
qed

lemma settle_settle_Awaiting:
  assumes "settle e s (settle e s x) = (es, Awaiting c out)"
  shows "out = Hangs"
proof (cases "settle e s x")
  case (Pair es0 st)
  show ?thesis
  proof (cases st)
    case (Awaiting c0 out0)
    with Pair have l: "out0 = Hangs \<or> last_await c0" by (simp add: settle_Awaiting)
    show ?thesis
    proof (cases out0)
      case (Returns v)
      with assms Pair Awaiting have "\<exists>es'. resume e s c0 (Inr v) = (es', Awaiting c out)"
        by (auto split: prod.splits)
      then obtain es' where "resume e s c0 (Inr v) = (es', Awaiting c out)" ..
      from resume_Awaiting [OF this] l Returns show ?thesis by simp
    next
      case (Throws ex)
      with assms Pair Awaiting have "\<exists>es'. resume e s c0 (Inl ex) = (es', Awaiting c out)"
        by (auto split: prod.splits)
      then obtain es' where "resume e s c0 (Inl ex) = (es', Awaiting c out)" ..
      from resume_Awaiting [OF this] l Throws show ?thesis by simp
    next
      case Hangs
      with assms Pair Awaiting show ?thesis by simp
    qed
  qed (use Pair assms in simp_all)
qed

lemma settle_settled:
  assumes "settles e out"
  shows "snd (settle e s (es, Awaiting c out)) = Finished
       \<or> (\<exists>c' out'. snd (settle e s (es, Awaiting c out)) = Awaiting c' out'
             \<and> last_await c' \<and> \<not> last_await c)"
proof (cases out)
  case (Returns v)
  obtain es' st where r: "resume e s c (Inr v) = (es', st)" by (cases "resume e s c (Inr v)")
  have nu: "st \<noteq> Unhandled y" for y
  proof -
    have "snd (resume e s c (Inr v)) \<noteq> Unhandled y"
      by (rule resume_settled [OF assms, where v = v and x = "Inr v"]) (simp add: Returns)
    with r show ?thesis by simp
  qed
  show ?thesis
  proof (cases st)
    case Finished
    with Returns r show ?thesis by simp
  next
    case (Awaiting c' out')
    with r resume_Awaiting [of e s c "Inr v" es' c' out'] Returns show ?thesis by simp
  next
    case (Unhandled y)
    with nu [of y] show ?thesis by simp
  qed
next
  case (Throws ex)
  with assms obtain m t where "js_get ex ''message'' = Inr m" "to_string e m = Inr t"
    by (auto simp: and_then_def split: sum.splits)
  with Throws show ?thesis by (simp add: catch_eq)
next
  case Hangs
  with assms show ?thesis by simp
qed

lemma settle_fst: "\<exists>es'. fst (settle e s (es, st)) = es @ es'"
  by (cases "(e, s, (es, st))" rule: settle.cases) (auto split: prod.splits)

lemma settle_settle_fst: "\<exists>es'. fst (settle e s (settle e s (es, st))) = es @ es'"
proof -
  obtain es1 st1 where a: "settle e s (es, st) = (es1, st1)" by (cases "settle e s (es, st)")
  from settle_fst [of e s es st] a obtain es' where b: "es1 = es @ es'" by auto
  from settle_fst [of e s es1 st1] obtain es'' where "fst (settle e s (es1, st1)) = es1 @ es''" ..
  with a b show ?thesis by simp
qed

lemma settle_Throws:
  assumes "js_get ex ''message'' = Inr m" and "to_string e m = Inr t"
  shows "settle e s (es, Awaiting c (Throws ex)) =
           (es @ [ConsoleError [JStr (''Error: '' @ t)],
                  Emit ''task_completed''
                    [JObj [(''requestId'', request_of c),
                           (''result'', JObj [(''error'', m), (''failed'', JNum 1)])]]],
            Finished)"
  using assms by (simp add: catch_eq)

lemma start_not_Unhandled:
  assumes "ready (logic s)" and "js_get data ''requestId'' = Inr (JStr rid)"
      and "js_get data ''taskType'' = Inr tt" and "to_string e tt = Inr t"
  shows "snd (start_task e s data) \<noteq> Unhandled y"
proof -
  from js_get_total [OF assms(2), of "''payload''"] obtain p
    where p: "js_get data ''payload'' = Inr p" by blast
  have "snd (complete e (JStr rid) (dispatch e s (JStr rid) tt p)) \<noteq> Unhandled y"
    by (rule complete_not_Unhandled) (rule dispatch_Inl)
  with assms p show ?thesis by (simp add: start_task_eq)
qed

lemma run_settled:
  assumes "ready (logic s)" and "js_get data ''requestId'' = Inr (JStr rid)"
      and "js_get data ''taskType'' = Inr tt" and "to_string e tt = Inr t"
      and "\<forall>out\<in>set (awaited e s data). settles e out"
  shows "snd (on_execute_task e s data) = Finished"
proof -
  obtain es0 st0 where x0: "start_task e s data = (es0, st0)" by (cases "start_task e s data")
  show ?thesis
  proof (cases st0)
    case Finished
    with x0 show ?thesis by (simp add: on_execute_task_def)
  next
    case (Unhandled y)
    with x0 start_not_Unhandled [OF assms(1-4), of y] show ?thesis by simp
  next
    case (Awaiting c out)
    have mem: "out \<in> set (awaited e s data)"
      using x0 Awaiting by (cases out) (simp_all add: awaited_def)
    with assms(5) have so: "settles e out" by blast
    then have nh: "out \<noteq> Hangs" by auto
    obtain es1 st1 where x1: "settle e s (es0, Awaiting c out) = (es1, st1)"
      by (cases "settle e s (es0, Awaiting c out)")
    from settle_settled [OF so, of s es0 c] x1
    consider (fin) "st1 = Finished"
      | (more) c' out' where "st1 = Awaiting c' out'" "last_await c'" by auto
    then show ?thesis
    proof cases
      case fin
      with x0 Awaiting x1 show ?thesis by (simp add: on_execute_task_def)
    next
      case more
      have "out' \<in> set (awaited e s data)"
        using x0 Awaiting x1 more(1) nh by (cases out) (simp_all add: awaited_def)
      with assms(5) have "settles e out'" by blast
      from settle_settled [OF this, of s es1 c'] more(2)
      have "snd (settle e s (es1, Awaiting c' out')) = Finished" by auto
      with x0 Awaiting x1 more(1) show ?thesis by (simp add: on_execute_task_def)
    qed
  qed
qed

lemma run_hangs:
  assumes "Hangs \<in> set (awaited e s data)"
  shows "\<exists>c. snd (on_execute_task e s data) = Awaiting c Hangs"
proof -
  obtain es0 st0 where x0: "start_task e s data = (es0, st0)" by (cases "start_task e s data")
  show ?thesis
  proof (cases st0)
    case (Awaiting c out)
    show ?thesis
    proof (cases "out = Hangs")
      case True
      with x0 Awaiting show ?thesis by (simp add: on_execute_task_def)
    next
      case False
      obtain es1 st1 where x1: "settle e s (es0, Awaiting c out) = (es1, st1)"
        by (cases "settle e s (es0, Awaiting c out)")
      from assms x0 Awaiting False x1 obtain c' where "st1 = Awaiting c' Hangs"
        by (cases out; cases st1) (auto simp: awaited_def)
      with x0 Awaiting x1 show ?thesis by (simp add: on_execute_task_def)
    qed
  qed (use assms x0 in \<open>simp_all add: awaited_def\<close>)
qed

subsection \<open>The routes through the \<open>switch\<close>\<close>

lemma start_task_eq_str:
  assumes "ready (logic s)"
      and "js_get data ''requestId'' = Inr (JStr rid)"
      and "js_get data ''taskType'' = Inr (JStr tt)"
      and "js_get data ''payload'' = Inr p"
  shows "start_task e s data = complete e (JStr rid) (dispatch e s (JStr rid) (JStr tt) p)"
  using assms by (simp add: start_task_eq)

lemma dispatch_login:
  assumes "logic s = Module m"
      and "js_get p ''userid'' = Inr u" and "js_get p ''password'' = Inr pw"
  shows "dispatch e s r (JStr ''LOGIN_CHECK'') p =
           call2 ''verifyLoginDetails'' (Inr (verifyLoginDetails m)) (Inr u) (Inr pw) (PassThrough r)"
    and "dispatch e s r (JStr ''INVENTORY'') p =
           call2 ''verifyLoginDetails'' (Inr (verifyLoginDetails m)) (Inr u) (Inr pw)
             (InventoryLogin r p)"
    and "dispatch e s r (JStr ''SINGLE_CHECK'') p =
           call2 ''verifyLoginDetails'' (Inr (verifyLoginDetails m)) (Inr u) (Inr pw)
             (CheckLogin r p)"
  using assms by (simp_all add: dispatch_def)

lemma call2_Func:
  "call2 k (Inr (Func f)) (Inr x) (Inr y) c = Inr (Suspend [Invoke k [x, y]] c (f x y))"
  by (simp add: call2_def callee_def)

lemma call2_Data:
  "call2 k (Inr (Data v)) (Inr x) (Inr y) c = Inl (type_error (not_a_function (''logic.'' @ k)))"
  by (simp add: call2_def callee_def)

lemma on_update_logic_file_returns:
  "\<exists>r. on_update_logic_file e s data = Inr r"
  by (cases data)
    (auto simp: on_update_logic_file_def update_failed_def writeFileSync_def type_error_def
      split: jsval.splits option.splits sum.splits)

lemma loadLogic_disk [simp]: "disk (snd (loadLogic e s)) = disk s"
  by (simp add: loadLogic_def split: logic_file.splits load_result.splits)

subsection \<open>The heartbeat timers\<close>

lemma heartbeats_append [simp]: "heartbeats (es @ es') = heartbeats es + heartbeats es'"
  by (simp add: heartbeats_def)

lemma heartbeats_fire_due:
  "heartbeats (fst (fire_due s)) = length (filter (\<lambda>d. d = now s) (intervals s))"
proof -
  have "heartbeats (concat (map (\<lambda>d. if d = n then [Emit ''heartbeat'' []] else []) xs)) =
          length (filter (\<lambda>d. d = n) xs)" for n :: nat and xs
    by (induction xs) (simp_all add: heartbeats_def)
  then show ?thesis by (simp add: fire_due_def)
qed

lemma fire_due_state:
  "now (snd (fire_due s)) = now s"
  "intervals (snd (fire_due s)) = map (\<lambda>d. if d = now s then d + 10000 else d) (intervals s)"
  by (simp_all add: fire_due_def)

lemma count_step:
  fixes xs :: "nat list"
  assumes "\<forall>d\<in>set xs. n < d" and "k < 10000"
  shows "length (filter (\<lambda>d. d = Suc n) xs) +
         length (filter (\<lambda>d. d \<le> Suc n + k) (map (\<lambda>d. if d = Suc n then d + 10000 else d) xs)) =
         length (filter (\<lambda>d. d \<le> n + Suc k) xs)"
  using assms by (induction xs) auto

lemma advance_heartbeats:
  assumes "\<forall>d\<in>set (intervals s). now s < d" and "k \<le> 10000"
  shows "heartbeats (fst (advance k s)) = length (filter (\<lambda>d. d \<le> now s + k) (intervals s))"
  using assms
proof (induction k arbitrary: s)
  case 0
  then show ?case by (auto simp: heartbeats_def filter_empty_conv)
next
  case (Suc k)
  define s1 where "s1 = snd (fire_due (s\<lparr>now := Suc (now s)\<rparr>))"
  have n1: "now s1 = Suc (now s)" by (simp add: s1_def fire_due_state)
  have i1: "intervals s1 = map (\<lambda>d. if d = Suc (now s) then d + 10000 else d) (intervals s)"
    by (simp add: s1_def fire_due_state)
  have inv: "\<forall>d\<in>set (intervals s1). now s1 < d"
    using Suc.prems(1) unfolding n1 i1 by auto
  have k: "k < 10000" using Suc.prems(2) by simp
  have ih: "heartbeats (fst (advance k s1)) =
              length (filter (\<lambda>d. d \<le> Suc (now s) + k) (intervals s1))"
    using Suc.IH [OF inv] k by (simp add: n1)
  have step: "heartbeats (fst (advance (Suc k) s)) =
          heartbeats (fst (fire_due (s\<lparr>now := Suc (now s)\<rparr>))) + heartbeats (fst (advance k s1))"
    by (simp add: case_prod_beta s1_def)
  have fd: "heartbeats (fst (fire_due (s\<lparr>now := Suc (now s)\<rparr>))) =
          length (filter (\<lambda>d. d = Suc (now s)) (intervals s))"
    by (simp add: heartbeats_fire_due)
  show ?case
    unfolding step fd ih i1 using count_step [OF Suc.prems(1) k] by simp
qed

lemma advance_quiet:
  assumes "\<forall>d\<in>set (intervals s). now s + k < d"
  shows "advance k s = ([], s\<lparr>now := now s + k\<rparr>)"
  using assms
proof (induction k arbitrary: s)
  case 0
  then show ?case by simp
next
  case (Suc k)
  let ?s0 = "s\<lparr>now := now s + 1\<rparr>"
  have "\<forall>d\<in>set (intervals s). d \<noteq> Suc (now s)" using Suc.prems by auto
  then have m: "map (\<lambda>d. if d = Suc (now s) then d + 10000 else d) (intervals s) = intervals s"
    by (induction "intervals s") (auto simp: map_idI)
  have c: "concat (map (\<lambda>d. if d = Suc (now s) then [Emit ''heartbeat'' []] else []) xs) = []"
    if "\<forall>d\<in>set xs. d \<noteq> Suc (now s)" for xs
    using that by (induction xs) auto
  have f: "fire_due ?s0 = ([], ?s0)"
    using \<open>\<forall>d\<in>set (intervals s). d \<noteq> Suc (now s)\<close> by (simp add: fire_due_def m c)
  have "\<forall>d\<in>set (intervals ?s0). now ?s0 + k < d" using Suc.prems by auto
  from Suc.IH [OF this] f show ?case by simp
qed

theorem heartbeats_per_period_is_number_of_timers:
  assumes "\<forall>d\<in>set (intervals s). now s < d \<and> d \<le> now s + 10000"
  shows "heartbeats (fst (advance 10000 s)) = length (intervals s)"
proof -
  have "heartbeats (fst (advance 10000 s)) =
          length (filter (\<lambda>d. d \<le> now s + 10000) (intervals s))"
    using assms by (intro advance_heartbeats) auto
  also have "filter (\<lambda>d. d \<le> now s + 10000) (intervals s) = intervals s"
    using assms by (simp add: filter_id_conv)
  finally show ?thesis .
qed

subsection \<open>The example inputs\<close>

lemma demo_chars:
  "char_of (47 :: nat) = CHR ''/''" "char_of (65 :: nat) = CHR ''A''"
  "char_of (66 :: nat) = CHR ''B''" "of_char CHR ''B'' = (66 :: nat)"
  by code_simp+

lemma demo_env_simps:
  "md5hex demo_env [47, 47] = ''//''" "md5hex demo_env [66] = ''B''"
  "utf8 demo_env ''B'' = [66]"
  "require demo_env [66] = Loaded (Module module_B)"
  "require demo_env [47, 47] = Loaded (Plain (JObj []))"
  "require demo_env [33] = LoadThrows"
  by (simp_all add: demo_env_def demo_chars)

lemmas demo_defs =
  worker0_def worker_A_def worker_B_def module_A_def module_B_def module_hanging_def
  module_throwing_def module_batch_only_def module_no_inventory_def module_no_meter_def
  inventory_throwing_def module_inventory_throwing_def demo_env_def task_def
  batch_A_def login_A_def inventory_A_def meter_A_def inventory_B_def batch_hanging_def
  batch_throwing_def

lemmas run_defs =
  on_execute_task_def start_task_def destructure_def dispatch_def call2_def callee_def
  finish_def catch_def js_or_def type_error_def not_a_function_def awaited_def

lemma conversion_examples:
  "to_string demo_env (JNum (-120)) = Inr ''-120''"
  "to_string demo_env (JArr [JNum 7, JNull, JStr ''a'', JArr [JBool True]]) = Inr ''7,,a,true''"
  "to_string demo_env (JObj [(''a'', JNum 1)]) = Inr ''[object Object]''"
  "to_string demo_env (JObj [(''toString'', JNum 1)]) = Inl (type_error cannot_convert)"
  by (simp_all add: safe_integer_def show_int_def) code_simp+

lemma unconvertible_task_type_is_not_caught:
  "start_task demo_env worker_A
     (JObj [(''requestId'', JStr ''r1''), (''taskType'', JObj [(''toString'', JNum 1)]),
            (''payload'', JObj [])]) =
     ([], Unhandled (type_error cannot_convert))"
  by (simp add: start_task_def destructure_def demo_defs)

lemma unconvertible_login_message_is_caught:
  "continue demo_env worker_A (InventoryLogin (JStr ''r1'') (JObj []))
     (JObj [(''success'', JBool False), (''message'', JObj [(''toString'', JNum 1)])]) =
     Inl (type_error cannot_convert)"
  by simp

lemma update_B: "on_update_logic_file demo_env worker_A (JObj [(''content'', JStr ''B'')]) = Inr ([], worker_B)"
  by (simp add: on_update_logic_file_def writeFileSync_def loadLogic_def demo_defs demo_chars)

section \<open>The claims\<close>

text \<open>
  \<^bold>\<open>C1\<close> (as amended). For every \<open>execute_task\<close> message whose \<open>requestId\<close> is a string
  and whose \<open>taskType\<close> converts to a string (as every string does), handled while the
  logic module is ready:
  \<^item> when every capability call that the run awaits settles, that is resolves, or rejects
    with a value whose \<open>message\<close> can be read and converted to a string, the handler
    finishes and has sent exactly one \<open>task_completed\<close>, tagged with the task's
    \<open>requestId\<close>;
  \<^item> when an awaited call never settles, the handler stays suspended on it and has sent no
    \<open>task_completed\<close>;
  \<^item> when the first or the second awaited call rejects with a value \<open>ex\<close> whose \<open>message\<close>
    converts to a string, the result sent is exactly \<open>{error: ex.message, failed: 1}\<close>;
  \<^item> in every case at most one \<open>task_completed\<close> is sent, and a handler that is still
    suspended at the end of the run is suspended on a call that never settles.
\<close>

theorem task_completed_once_when_settled:
  assumes "ready (logic s)" and "js_get data ''requestId'' = Inr (JStr rid)"
      and "js_get data ''taskType'' = Inr taskType" and "to_string e taskType = Inr label"
  shows "((\<forall>out\<in>set (awaited e s data). settles e out) \<longrightarrow>
            snd (on_execute_task e s data) = Finished
            \<and> (\<exists>r. completed (fst (on_execute_task e s data)) =
                     [JObj [(''requestId'', JStr rid), (''result'', r)]]))
       \<and> (Hangs \<in> set (awaited e s data) \<longrightarrow>
            (\<exists>c. snd (on_execute_task e s data) = Awaiting c Hangs)
            \<and> completed (fst (on_execute_task e s data)) = [])
       \<and> (\<forall>es c ex m t.
            (start_task e s data = (es, Awaiting c (Throws ex))
               \<or> settle e s (start_task e s data) = (es, Awaiting c (Throws ex)))
            \<and> js_get ex ''message'' = Inr m \<and> to_string e m = Inr t \<longrightarrow>
            on_execute_task e s data =
              (es @ [ConsoleError [JStr (''Error: '' @ t)],
                     Emit ''task_completed''
                       [JObj [(''requestId'', JStr rid),
                              (''result'', JObj [(''error'', m), (''failed'', JNum 1)])]]],
               Finished))
       \<and> (case on_execute_task e s data of
            (es, Finished) \<Rightarrow>
              (\<exists>r. completed es = [JObj [(''requestId'', JStr rid), (''result'', r)]])
          | (es, Awaiting c out) \<Rightarrow> out = Hangs \<and> completed es = []
          | (es, Unhandled x) \<Rightarrow> completed es = [])"
proof -
  have ok0: "outcome_ok (JStr rid) (start_task e s data)"
    by (rule outcome_ok_start [OF assms])
  then have ok1: "outcome_ok (JStr rid) (settle e s (start_task e s data))"
    by (rule outcome_ok_settle)
  then have ok: "outcome_ok (JStr rid) (on_execute_task e s data)"
    unfolding on_execute_task_def by (rule outcome_ok_settle)
  obtain es st where r: "on_execute_task e s data = (es, st)"
    by (cases "on_execute_task e s data")
  have classified: "case on_execute_task e s data of
            (es, Finished) \<Rightarrow>
              (\<exists>r. completed es = [JObj [(''requestId'', JStr rid), (''result'', r)]])
          | (es, Awaiting c out) \<Rightarrow> out = Hangs \<and> completed es = []
          | (es, Unhandled x) \<Rightarrow> completed es = []"
  proof (cases st)
    case Finished
    with ok r show ?thesis by (simp add: outcome_ok_def)
  next
    case (Awaiting c out)
    with r have "out = Hangs"
      using settle_settle_Awaiting [of e s "start_task e s data" es c out]
      by (simp add: on_execute_task_def)
    with ok r Awaiting show ?thesis by (simp add: outcome_ok_def)
  next
    case (Unhandled x)
    with ok r show ?thesis by (simp add: outcome_ok_def)
  qed
  have settled: "snd (on_execute_task e s data) = Finished
            \<and> (\<exists>r. completed (fst (on_execute_task e s data)) =
                     [JObj [(''requestId'', JStr rid), (''result'', r)]])"
    if a: "\<forall>out\<in>set (awaited e s data). settles e out"
  proof -
    from run_settled [OF assms a] have "st = Finished" by (simp add: r)
    with classified r show ?thesis by simp
  qed
  have hanging: "(\<exists>c. snd (on_execute_task e s data) = Awaiting c Hangs)
            \<and> completed (fst (on_execute_task e s data)) = []"
    if a: "Hangs \<in> set (awaited e s data)"
  proof -
    from run_hangs [OF a] obtain c where "st = Awaiting c Hangs" by (auto simp: r)
    with classified r show ?thesis by simp
  qed
  have thrown: "on_execute_task e s data =
              (es' @ [ConsoleError [JStr (''Error: '' @ t)],
                     Emit ''task_completed''
                       [JObj [(''requestId'', JStr rid),
                              (''result'', JObj [(''error'', m), (''failed'', JNum 1)])]]],
               Finished)"
    if a: "(start_task e s data = (es', Awaiting c (Throws ex))
               \<or> settle e s (start_task e s data) = (es', Awaiting c (Throws ex)))
            \<and> js_get ex ''message'' = Inr m \<and> to_string e m = Inr t"
    for es' c ex m t
  proof -
    from a have m: "js_get ex ''message'' = Inr m" "to_string e m = Inr t" by simp_all
    from a consider (first) "start_task e s data = (es', Awaiting c (Throws ex))"
      | (second) "settle e s (start_task e s data) = (es', Awaiting c (Throws ex))" by blast
    then show ?thesis
    proof cases
      case first
      with ok0 have c: "request_of c = JStr rid" by (simp add: outcome_ok_def)
      from first
      have "settle e s (start_task e s data) = settle e s (es', Awaiting c (Throws ex))"
        by (simp only:)
      also note settle_Throws [OF m]
      finally show ?thesis by (simp add: on_execute_task_def c)
    next
      case second
      with ok1 have c: "request_of c = JStr rid" by (simp add: outcome_ok_def)
      from second
      have "on_execute_task e s data = settle e s (es', Awaiting c (Throws ex))"
        by (simp only: on_execute_task_def)
      also note settle_Throws [OF m]
      finally show ?thesis by (simp add: c)
    qed
  qed
  from settled hanging thrown classified show ?thesis by blast
qed

text \<open>
  \<^bold>\<open>C1\<close>, counterexample to the claim as stated: the module is ready and the message is
  well formed, but \<open>processBatch\<close> never settles; the handler stays suspended at line 160
  and no \<open>task_completed\<close> is ever sent.
\<close>

theorem hanging_call_never_completes:
  "ready (logic (worker_A \<lparr>logic := Module module_hanging\<rparr>)) \<and>
   on_execute_task demo_env (worker_A \<lparr>logic := Module module_hanging\<rparr>)
     (task ''r1'' ''METER_POST'' (JObj [(''userid'', JStr ''u''), (''password'', JStr ''secret''),
        (''meters'', JArr [JStr ''1001''])])) =
     ([Invoke ''processBatch'' [JStr ''u'', JStr ''secret'', JArr [JStr ''1001'']]],
      Awaiting (PassThrough (JStr ''r1'')) Hangs) \<and>
   completed (fst (on_execute_task demo_env (worker_A \<lparr>logic := Module module_hanging\<rparr>)
     (task ''r1'' ''METER_POST'' (JObj [(''userid'', JStr ''u''), (''password'', JStr ''secret''),
        (''meters'', JArr [JStr ''1001''])])))) = []"
  by (simp add: demo_defs on_execute_task_def start_task_def destructure_def dispatch_def
      callee_def)

text \<open>
  \<^bold>\<open>C1\<close>, witness: a batch call that rejects with \<open>Error("session expired")\<close>, an
  inventory call, the second of its chain, that rejects with \<open>Error("portal unreachable")\<close>,
  an inventory task whose two calls resolve, and a batch call that never settles.
\<close>

theorem task_completed_once_when_settled_witness:
  "ready (logic (worker_A \<lparr>logic := Module module_throwing\<rparr>)) \<and>
   awaited demo_env (worker_A \<lparr>logic := Module module_throwing\<rparr>)
      (task ''r1'' ''FAST_POST'' (JObj [(''userid'', JStr ''u''), (''password'', JStr ''secret''),
        (''meters'', JArr [])])) = [Throws (JObj [(''message'', JStr ''session expired'')])] \<and>
   settles demo_env (Throws (JObj [(''message'', JStr ''session expired'')])) \<and>
   snd (on_execute_task demo_env (worker_A \<lparr>logic := Module module_throwing\<rparr>)
      (task ''r1'' ''FAST_POST'' (JObj [(''userid'', JStr ''u''), (''password'', JStr ''secret''),
        (''meters'', JArr [])]))) = Finished \<and>
   on_execute_task demo_env (worker_A \<lparr>logic := Module module_throwing\<rparr>)
     (task ''r1'' ''FAST_POST'' (JObj [(''userid'', JStr ''u''), (''password'', JStr ''secret''),
        (''meters'', JArr [])])) =
     ([Invoke ''processBatch'' [JStr ''u'', JStr ''secret'', JArr []],
       ConsoleError [JStr ''Error: session expired''],
       Emit ''task_completed''
         [JObj [(''requestId'', JStr ''r1''),
                (''result'', JObj [(''error'', JStr ''session expired''), (''failed'', JNum 1)])]]],
      Finished) \<and>
   on_execute_task demo_env (worker_A \<lparr>logic := Module module_inventory_throwing\<rparr>)
     (task ''r2'' ''INVENTORY'' (JObj [(''userid'', JStr ''u''), (''password'', JStr ''secret'')])) =
     ([Invoke ''verifyLoginDetails'' [JStr ''u'', JStr ''secret''],
       Invoke ''getInventoryList'' [JStr ''sid=1'', JNum 50],
       ConsoleError [JStr ''Error: portal unreachable''],
       Emit ''task_completed''
         [JObj [(''requestId'', JStr ''r2''),
                (''result'',
                 JObj [(''error'', JStr ''portal unreachable''), (''failed'', JNum 1)])]]],
      Finished) \<and>
   snd (on_execute_task demo_env worker_A
     (task ''r3'' ''INVENTORY''
        (JObj [(''userid'', JStr ''u''), (''password'', JStr ''secret'')]))) = Finished \<and>
   Hangs \<in> set (awaited demo_env (worker_A \<lparr>logic := Module module_hanging\<rparr>)
     (task ''r4'' ''METER_POST'' (JObj []))) \<and>
   snd (on_execute_task demo_env (worker_A \<lparr>logic := Module module_hanging\<rparr>)
     (task ''r4'' ''METER_POST'' (JObj []))) = Awaiting (PassThrough (JStr ''r4'')) Hangs"
proof -
  let ?s = "worker_A \<lparr>logic := Module module_throwing\<rparr>"
  let ?d = "task ''r1'' ''FAST_POST'' (JObj [(''userid'', JStr ''u''), (''password'', JStr ''secret''),
        (''meters'', JArr [])])"
  let ?s2 = "worker_A \<lparr>logic := Module module_inventory_throwing\<rparr>"
  let ?d2 = "task ''r2'' ''INVENTORY''
        (JObj [(''userid'', JStr ''u''), (''password'', JStr ''secret'')])"
  let ?d3 = "task ''r3'' ''INVENTORY''
        (JObj [(''userid'', JStr ''u''), (''password'', JStr ''secret'')])"
  let ?s4 = "worker_A \<lparr>logic := Module module_hanging\<rparr>"
  let ?d4 = "task ''r4'' ''METER_POST'' (JObj [])"
  have r: "ready (logic ?s)" by (simp add: demo_defs)
  have q: "js_get ?d ''requestId'' = Inr (JStr ''r1'')"
    and tt: "js_get ?d ''taskType'' = Inr (JStr ''FAST_POST'')" by (simp_all add: task_def)
  have lab: "to_string demo_env (JStr ''FAST_POST'') = Inr ''FAST_POST''" by simp
  have st: "start_task demo_env ?s ?d =
              ([Invoke ''processBatch'' [JStr ''u'', JStr ''secret'', JArr []]],
               Awaiting (PassThrough (JStr ''r1''))
                 (Throws (JObj [(''message'', JStr ''session expired'')])))"
    by (simp add: demo_defs start_task_def destructure_def dispatch_def callee_def)
  have m: "js_get (JObj [(''message'', JStr ''session expired'')]) ''message'' =
             Inr (JStr ''session expired'')"
    and mt: "to_string demo_env (JStr ''session expired'') = Inr ''session expired''"
    by simp_all
  note w1 = task_completed_once_when_settled [OF r q tt lab]
  have aw: "awaited demo_env ?s ?d = [Throws (JObj [(''message'', JStr ''session expired'')])]"
    by (simp add: awaited_def st catch_def finish_def)
  have se: "settles demo_env (Throws (JObj [(''message'', JStr ''session expired'')]))"
    by simp
  from w1 aw se have fin: "snd (on_execute_task demo_env ?s ?d) = Finished" by simp
  from w1 st m mt
  have a: "on_execute_task demo_env ?s ?d =
          ([Invoke ''processBatch'' [JStr ''u'', JStr ''secret'', JArr []]] @
           [ConsoleError [JStr (''Error: '' @ ''session expired'')],
            Emit ''task_completed''
              [JObj [(''requestId'', JStr ''r1''),
                     (''result'',
                      JObj [(''error'', JStr ''session expired''), (''failed'', JNum 1)])]]],
           Finished)"
    by blast
  have r2: "ready (logic ?s2)" by (simp add: demo_defs)
  have q2: "js_get ?d2 ''requestId'' = Inr (JStr ''r2'')"
    and tt2: "js_get ?d2 ''taskType'' = Inr (JStr ''INVENTORY'')" by (simp_all add: task_def)
  have lab2: "to_string demo_env (JStr ''INVENTORY'') = Inr ''INVENTORY''" by simp
  have st2: "settle demo_env ?s2 (start_task demo_env ?s2 ?d2) =
              ([Invoke ''verifyLoginDetails'' [JStr ''u'', JStr ''secret''],
                Invoke ''getInventoryList'' [JStr ''sid=1'', JNum 50]],
               Awaiting (InventoryList (JStr ''r2''))
                 (Throws (JObj [(''message'', JStr ''portal unreachable'')])))"
    by (simp add: demo_defs start_task_def destructure_def dispatch_def call2_def callee_def
        js_or_def)
  have m2: "js_get (JObj [(''message'', JStr ''portal unreachable'')]) ''message'' =
             Inr (JStr ''portal unreachable'')"
    and mt2: "to_string demo_env (JStr ''portal unreachable'') = Inr ''portal unreachable''"
    by simp_all
  from task_completed_once_when_settled [OF r2 q2 tt2 lab2] st2 m2 mt2
  have b: "on_execute_task demo_env ?s2 ?d2 =
          ([Invoke ''verifyLoginDetails'' [JStr ''u'', JStr ''secret''],
            Invoke ''getInventoryList'' [JStr ''sid=1'', JNum 50]] @
           [ConsoleError [JStr (''Error: '' @ ''portal unreachable'')],
            Emit ''task_completed''
              [JObj [(''requestId'', JStr ''r2''),
                     (''result'',
                      JObj [(''error'', JStr ''portal unreachable''), (''failed'', JNum 1)])]]],
           Finished)"
    by blast
  have r3: "ready (logic worker_A)" by (simp add: demo_defs)
  have q3: "js_get ?d3 ''requestId'' = Inr (JStr ''r3'')"
    and tt3: "js_get ?d3 ''taskType'' = Inr (JStr ''INVENTORY'')" by (simp_all add: task_def)
  have aw3: "\<forall>out\<in>set (awaited demo_env worker_A ?d3). settles demo_env out"
    by (simp add: awaited_def demo_defs start_task_def destructure_def dispatch_def call2_def
        callee_def js_or_def)
  from task_completed_once_when_settled [OF r3 q3 tt3 lab2] aw3
  have c: "snd (on_execute_task demo_env worker_A ?d3) = Finished" by blast
  have r4: "ready (logic ?s4)" by (simp add: demo_defs)
  have q4: "js_get ?d4 ''requestId'' = Inr (JStr ''r4'')"
    and tt4: "js_get ?d4 ''taskType'' = Inr (JStr ''METER_POST'')" by (simp_all add: task_def)
  have lab4: "to_string demo_env (JStr ''METER_POST'') = Inr ''METER_POST''" by simp
  have st4: "start_task demo_env ?s4 ?d4 =
               ([Invoke ''processBatch'' [JUndefined, JUndefined, JUndefined]],
                Awaiting (PassThrough (JStr ''r4'')) Hangs)"
    by (simp add: demo_defs start_task_def destructure_def dispatch_def callee_def)
  then have aw4: "Hangs \<in> set (awaited demo_env ?s4 ?d4)" by (simp add: awaited_def)
  from task_completed_once_when_settled [OF r4 q4 tt4 lab4] aw4
  have "\<exists>c. snd (on_execute_task demo_env ?s4 ?d4) = Awaiting c Hangs" by blast
  then have d: "snd (on_execute_task demo_env ?s4 ?d4) = Awaiting (PassThrough (JStr ''r4'')) Hangs"
    by (simp add: on_execute_task_def st4)
  from r aw se fin a b c aw4 d show ?thesis by simp
qed

text \<open>
  \<^bold>\<open>C2\<close>. For every \<open>execute_task\<close> message that arrives while the logic module is not
  ready (the variable is falsy, or it has no truthy \<open>processBatch\<close>), the handler sends
  exactly one \<open>check_version\<close> message carrying the current local hash and does nothing
  else: no \<open>task_completed\<close>, no result of any kind; the task is dropped.
\<close>

theorem not_ready_drops_task:
  assumes "\<not> ready (logic s)"
  shows "on_execute_task e s data = ([Emit ''check_version'' [getLocalHash e s]], Finished)
         \<and> completed (fst (on_execute_task e s data)) = []"
  using assms by (simp add: on_execute_task_def start_task_def)

text \<open>\<^bold>\<open>C2\<close>, witness: a worker whose logic file is only a comment and exports nothing.\<close>

theorem not_ready_drops_task_witness:
  "\<not> ready (logic worker0) \<and>
   on_execute_task demo_env worker0 (task ''r1'' ''METER_POST'' (JObj [])) =
     ([Emit ''check_version'' [JStr ''//'']], Finished)"
proof -
  have h: "\<not> ready (logic worker0)" by (simp add: worker0_def)
  have g: "getLocalHash demo_env worker0 = JStr ''//''"
    by (simp add: getLocalHash_def worker0_def demo_env_def demo_chars)
  from not_ready_drops_task [OF h, of demo_env "task ''r1'' ''METER_POST'' (JObj [])"] h g
  show ?thesis by simp
qed

text \<open>
  \<^bold>\<open>C3\<close> (as amended). For an \<open>INVENTORY\<close> task whose \<open>verifyLoginDetails\<close> call
  returns \<open>authInv\<close>: when \<open>authInv.success\<close> is falsy, \<open>getInventoryList\<close> is never
  called, and the result is exactly \<open>{error: "Login Failed: " + authInv.message}\<close>, the
  \<open>+\<close> being JavaScript's concatenation, whenever that concatenation yields a string;
  when \<open>authInv.success\<close> is truthy, \<open>getInventoryList\<close> is called with
  \<open>authInv.cookies\<close> and with \<open>payload.limit || 50\<close>, that is \<open>payload.limit\<close> when it is
  truthy and 50 otherwise (so also for a limit of 0), and what it returns is wrapped as
  \<open>{status: "success", count: data.length, data: data}\<close>.
\<close>

theorem inventory_requires_login:
  assumes "logic s = Module m" and "member_truthy (processBatch m)"
      and "js_get data ''requestId'' = Inr (JStr rid)"
      and "js_get data ''taskType'' = Inr (JStr ''INVENTORY'')"
      and "js_get data ''payload'' = Inr payload"
      and "js_get payload ''userid'' = Inr userid"
      and "js_get payload ''password'' = Inr password"
      and "js_get payload ''limit'' = Inr limit"
      and "verifyLoginDetails m = Func login"
      and "login userid password = Returns authInv"
      and "js_get authInv ''success'' = Inr success"
      and "js_get authInv ''message'' = Inr message"
      and "js_get authInv ''cookies'' = Inr cookies"
  shows "(\<not> truthy success \<longrightarrow>
            invocations ''getInventoryList'' (fst (on_execute_task e s data)) = []
            \<and> (\<forall>rendered. to_string e message = Inr rendered \<longrightarrow>
                 on_execute_task e s data =
                   ([Invoke ''verifyLoginDetails'' [userid, password],
                     Emit ''task_completed''
                       [JObj [(''requestId'', JStr rid),
                              (''result'',
                               JObj [(''error'', JStr (''Login Failed: '' @ rendered))])]]],
                    Finished)))
       \<and> (truthy success \<longrightarrow>
            (\<forall>list found n rendered.
               getInventoryList m = Func list
               \<and> list cookies (js_or limit (JNum 50)) = Returns found
               \<and> js_get found ''length'' = Inr n \<and> to_string e n = Inr rendered \<longrightarrow>
               on_execute_task e s data =
                 ([Invoke ''verifyLoginDetails'' [userid, password],
                   Invoke ''getInventoryList'' [cookies, js_or limit (JNum 50)],
                   Emit ''task_completed''
                     [JObj [(''requestId'', JStr rid),
                            (''result'',
                             JObj [(''status'', JStr ''success''), (''count'', n),
                                   (''data'', found)])]]],
                  Finished)))"
proof -
  have r: "ready (logic s)" using assms(1,2) by simp
  have st: "start_task e s data =
              ([Invoke ''verifyLoginDetails'' [userid, password]],
               Awaiting (InventoryLogin (JStr rid) payload) (Returns authInv))"
    using assms by (simp add: start_task_eq_str [OF r] dispatch_login call2_Func)
  have none: "invocations ''getInventoryList'' (fst (on_execute_task e s data)) = []"
    if f: "\<not> truthy success"
  proof (cases "to_string e message")
    case (Inl ex)
    then have "ex = type_error cannot_convert" by (rule to_string_Inl)
    with Inl f assms show ?thesis
      by (simp add: on_execute_task_def st catch_type_error)
  next
    case (Inr rendered)
    with f assms show ?thesis by (simp add: on_execute_task_def st finish_def)
  qed
  show ?thesis
    using assms none by (simp add: on_execute_task_def st call2_Func finish_def)
qed

text \<open>
  \<^bold>\<open>C3\<close>, counterexample to the claim as stated: with \<open>payload.limit = 0\<close> the limit
  passed to \<open>getInventoryList\<close> is 50, not \<open>payload.limit\<close>.
\<close>

theorem inventory_limit_zero_defaults:
  "js_get (JObj [(''userid'', JStr ''u''), (''password'', JStr ''secret''), (''limit'', JNum 0)])
     ''limit'' = Inr (JNum 0)
   \<and> on_execute_task demo_env worker_A
       (task ''r1'' ''INVENTORY''
          (JObj [(''userid'', JStr ''u''), (''password'', JStr ''secret''), (''limit'', JNum 0)])) =
       ([Invoke ''verifyLoginDetails'' [JStr ''u'', JStr ''secret''],
         Invoke ''getInventoryList'' [JStr ''sid=1'', JNum 50],
         Emit ''task_completed''
           [JObj [(''requestId'', JStr ''r1''),
                  (''result'',
                   JObj [(''status'', JStr ''success''), (''count'', JNum 2),
                         (''data'', JArr [JStr ''meter of A'', JNum 50])])]]],
        Finished)"
  by (simp add: demo_defs on_execute_task_def start_task_def destructure_def dispatch_def
      call2_def callee_def finish_def js_or_def)

text \<open>\<^bold>\<open>C3\<close>, witness: a wrong password, and the right one with a limit of 10.\<close>

theorem inventory_requires_login_witness:
  "on_execute_task demo_env worker_A
     (task ''r1'' ''INVENTORY'' (JObj [(''userid'', JStr ''u''), (''password'', JStr ''guess'')])) =
     ([Invoke ''verifyLoginDetails'' [JStr ''u'', JStr ''guess''],
       Emit ''task_completed''
         [JObj [(''requestId'', JStr ''r1''),
                (''result'', JObj [(''error'', JStr ''Login Failed: Invalid password'')])]]],
      Finished)
   \<and> on_execute_task demo_env worker_A
       (task ''r2'' ''INVENTORY''
          (JObj [(''userid'', JStr ''u''), (''password'', JStr ''secret''), (''limit'', JNum 10)])) =
       ([Invoke ''verifyLoginDetails'' [JStr ''u'', JStr ''secret''],
         Invoke ''getInventoryList'' [JStr ''sid=1'', JNum 10],
         Emit ''task_completed''
           [JObj [(''requestId'', JStr ''r2''),
                  (''result'',
                   JObj [(''status'', JStr ''success''), (''count'', JNum 2),
                         (''data'', JArr [JStr ''meter of A'', JNum 10])])]]],
        Finished)"
  using inventory_requires_login
     [where s = worker_A and m = module_A and e = demo_env and rid = "''r1''"
        and data = "task ''r1'' ''INVENTORY''
                      (JObj [(''userid'', JStr ''u''), (''password'', JStr ''guess'')])"
        and payload = "JObj [(''userid'', JStr ''u''), (''password'', JStr ''guess'')]"
        and userid = "JStr ''u''" and password = "JStr ''guess''" and limit = JUndefined
        and login = login_A
        and authInv = "JObj [(''success'', JBool False), (''message'', JStr ''Invalid password'')]"
        and success = "JBool False" and message = "JStr ''Invalid password''"
        and cookies = JUndefined]
    inventory_requires_login
     [where s = worker_A and m = module_A and e = demo_env and rid = "''r2''"
        and data = "task ''r2'' ''INVENTORY''
                      (JObj [(''userid'', JStr ''u''), (''password'', JStr ''secret''),
                             (''limit'', JNum 10)])"
        and payload = "JObj [(''userid'', JStr ''u''), (''password'', JStr ''secret''),
                             (''limit'', JNum 10)]"
        and userid = "JStr ''u''" and password = "JStr ''secret''" and limit = "JNum 10"
        and login = login_A
        and authInv = "JObj [(''success'', JBool True), (''cookies'', JStr ''sid=1'')]"
        and success = "JBool True" and message = JUndefined
        and cookies = "JStr ''sid=1''"]
  by (simp add: demo_defs js_or_def)

text \<open>
  \<^bold>\<open>C4\<close>. Whenever the logic file is absent, cannot be read, or does not evaluate,
  \<open>loadLogic\<close> returns \<open>false\<close> normally and leaves the whole state, the module variable
  included, as it was. When the file evaluates to a module without a truthy
  \<open>processBatch\<close>, \<open>loadLogic\<close> returns \<open>false\<close> and the worker is not ready afterwards.
\<close>

theorem loadLogic_failure_keeps_module:
  "(disk s = Absent \<or> disk s = Unreadable \<or> (\<exists>b. disk s = Content b \<and> require e b = LoadThrows)
      \<longrightarrow> loadLogic e s = (False, s))
   \<and> (\<forall>b m. disk s = Content b \<and> require e b = Loaded m \<and> \<not> ready m
      \<longrightarrow> fst (loadLogic e s) = False \<and> \<not> ready (logic (snd (loadLogic e s))))"
  by (auto simp: loadLogic_def)

text \<open>
  \<^bold>\<open>C4\<close>, witness: a missing file, a file that does not parse (module A stays loaded),
  and the placeholder file, which exports an empty object.
\<close>

theorem loadLogic_failure_keeps_module_witness:
  "loadLogic demo_env (worker_A \<lparr>disk := Absent\<rparr>) = (False, worker_A \<lparr>disk := Absent\<rparr>)
   \<and> loadLogic demo_env (worker_A \<lparr>disk := Content [33]\<rparr>) =
       (False, worker_A \<lparr>disk := Content [33]\<rparr>)
   \<and> logic (worker_A \<lparr>disk := Content [33]\<rparr>) = Module module_A
   \<and> require demo_env [47, 47] = Loaded (Plain (JObj []))
   \<and> fst (loadLogic demo_env (worker_A \<lparr>disk := Content [47, 47]\<rparr>)) = False
   \<and> \<not> ready (logic (snd (loadLogic demo_env (worker_A \<lparr>disk := Content [47, 47]\<rparr>))))"
  using loadLogic_failure_keeps_module [of "worker_A \<lparr>disk := Absent\<rparr>" demo_env]
    loadLogic_failure_keeps_module [of "worker_A \<lparr>disk := Content [33]\<rparr>" demo_env]
    loadLogic_failure_keeps_module [of "worker_A \<lparr>disk := Content [47, 47]\<rparr>" demo_env]
  by (simp add: demo_env_def worker_A_def worker0_def)

text \<open>
  \<^bold>\<open>C5\<close>. On every \<open>connect\<close> event the worker sends exactly one message, a
  \<open>check_version\<close> whose payload is the digest of the bytes of the logic file, or
  \<open>null\<close> when the file is absent or unreadable; the payload depends on the file only, so
  identical contents give identical payloads.
\<close>

theorem connect_sends_local_hash:
  "fst (on_connect e s) =
     [Emit ''check_version''
        [case disk s of Absent \<Rightarrow> JNull | Unreadable \<Rightarrow> JNull
         | Content bytes \<Rightarrow> JStr (md5hex e bytes)]]
   \<and> (disk s = disk s' \<longrightarrow> fst (on_connect e s) = fst (on_connect e s'))"
  by (simp add: on_connect_def getLocalHash_def)

text \<open>\<^bold>\<open>C5\<close>, witness: two states of the worker with the same file, and one without a file.\<close>

theorem connect_sends_local_hash_witness:
  "disk worker0 = disk (worker0 \<lparr>logic := Module module_A, now := 5000\<rparr>)
   \<and> fst (on_connect demo_env (worker0 \<lparr>logic := Module module_A, now := 5000\<rparr>)) =
       fst (on_connect demo_env worker0)
   \<and> fst (on_connect demo_env worker0) = [Emit ''check_version'' [JStr ''//'']]
   \<and> fst (on_connect demo_env (worker0 \<lparr>disk := Absent\<rparr>)) = [Emit ''check_version'' [JNull]]"
  using connect_sends_local_hash
      [of demo_env worker0 "worker0 \<lparr>logic := Module module_A, now := 5000\<rparr>"]
    connect_sends_local_hash [of demo_env "worker0 \<lparr>disk := Absent\<rparr>" worker0]
  by (auto simp add: worker0_def demo_env_simps)

text \<open>
  \<^bold>\<open>C6\<close>. For an \<open>update_logic_file\<close> message with the string \<open>c\<close> as content: when
  the write succeeds the file holds exactly the bytes of \<open>c\<close>, so the local hash computed
  afterwards, and the \<open>check_version\<close> sent on the next connection, carry the digest of the
  delivered content; when the write fails, the failure is printed on \<open>console.error\<close> and
  the state, the module variable included, stays as it was.
\<close>

theorem update_then_hash_converges:
  assumes "js_get data ''content'' = Inr (JStr c)"
  shows "(write_fault s = None \<longrightarrow>
            (\<exists>s'. on_update_logic_file e s data = Inr ([], s')
               \<and> disk s' = Content (utf8 e c)
               \<and> getLocalHash e s' = JStr (md5hex e (utf8 e c))
               \<and> fst (on_connect e s') = [Emit ''check_version'' [JStr (md5hex e (utf8 e c))]]))
       \<and> (\<forall>msg. write_fault s = Some msg \<longrightarrow>
            on_update_logic_file e s data =
              Inr ([ConsoleError [JStr ''Update failed:'', JStr msg]], s))"
  using assms
  by (simp add: on_update_logic_file_def writeFileSync_def update_failed_def getLocalHash_def
      on_connect_def)

text \<open>\<^bold>\<open>C6\<close>, witness: the update \<open>B\<close>, written successfully and on a disk that refuses it.\<close>

theorem update_then_hash_converges_witness:
  "js_get (JObj [(''content'', JStr ''B'')]) ''content'' = Inr (JStr ''B'')
   \<and> on_update_logic_file demo_env worker_A (JObj [(''content'', JStr ''B'')]) =
       Inr ([], worker_B)
   \<and> getLocalHash demo_env worker_B = JStr (md5hex demo_env (utf8 demo_env ''B''))
   \<and> on_update_logic_file demo_env (worker_A \<lparr>write_fault := Some ''EACCES''\<rparr>)
         (JObj [(''content'', JStr ''B'')]) =
       Inr ([ConsoleError [JStr ''Update failed:'', JStr ''EACCES'']],
            worker_A \<lparr>write_fault := Some ''EACCES''\<rparr>)"
proof -
  have c: "js_get (JObj [(''content'', JStr ''B'')]) ''content'' = Inr (JStr ''B'')" by simp
  have n: "write_fault worker_A = None" by (simp add: worker_A_def worker0_def)
  from update_then_hash_converges [OF c, of worker_A demo_env] n update_B
  have "getLocalHash demo_env worker_B = JStr (md5hex demo_env (utf8 demo_env ''B''))" by auto
  moreover from update_then_hash_converges
      [OF c, of "worker_A \<lparr>write_fault := Some ''EACCES''\<rparr>" demo_env]
  have "on_update_logic_file demo_env (worker_A \<lparr>write_fault := Some ''EACCES''\<rparr>)
         (JObj [(''content'', JStr ''B'')]) =
       Inr ([ConsoleError [JStr ''Update failed:'', JStr ''EACCES'']],
            worker_A \<lparr>write_fault := Some ''EACCES''\<rparr>)" by simp
  ultimately show ?thesis using c update_B by simp
qed

text \<open>
  \<^bold>\<open>C7\<close> (as amended). A task does not capture the module: every capability call reads
  the variable \<open>logic\<close> at the moment the call is made. For an \<open>INVENTORY\<close> or
  \<open>SINGLE_CHECK\<close> task started while the variable holds \<open>m0\<close> and resumed, after the
  login has succeeded, while it holds \<open>m1\<close>, the login that ran is the one of \<open>m0\<close> and
  the second call of the chain is made on \<open>getInventoryList\<close>, respectively
  \<open>verifyMeter\<close>, of \<open>m1\<close>.
\<close>

theorem chain_reads_module_at_each_call:
  assumes "ready (logic s0)" and "logic s0 = Module m0" and "logic s1 = Module m1"
      and "js_get data ''requestId'' = Inr (JStr rid)"
      and "js_get data ''taskType'' = Inr (JStr taskType)"
      and "js_get data ''payload'' = Inr payload"
      and "js_get payload ''userid'' = Inr userid"
      and "js_get payload ''password'' = Inr password"
      and "js_get payload ''limit'' = Inr limit"
      and "js_get payload ''meterNo'' = Inr meterNo"
      and "verifyLoginDetails m0 = Func login"
      and "login userid password = Returns auth"
      and "js_get auth ''success'' = Inr success" and "truthy success"
      and "js_get auth ''cookies'' = Inr cookies"
  shows "(taskType = ''INVENTORY'' \<longrightarrow>
            (\<forall>list. getInventoryList m1 = Func list \<longrightarrow>
               settle e s1 (start_task e s0 data) =
                 ([Invoke ''verifyLoginDetails'' [userid, password],
                   Invoke ''getInventoryList'' [cookies, js_or limit (JNum 50)]],
                  Awaiting (InventoryList (JStr rid)) (list cookies (js_or limit (JNum 50))))))
       \<and> (taskType = ''SINGLE_CHECK'' \<longrightarrow>
            (\<forall>meter. verifyMeter m1 = Func meter \<longrightarrow>
               settle e s1 (start_task e s0 data) =
                 ([Invoke ''verifyLoginDetails'' [userid, password],
                   Invoke ''verifyMeter'' [cookies, meterNo]],
                  Awaiting (CheckMeter (JStr rid)) (meter cookies meterNo))))"
  using assms by (simp add: start_task_eq_str dispatch_login call2_Func)

text \<open>
  \<^bold>\<open>C7\<close>, counterexample to the claim as stated: an \<open>INVENTORY\<close> task is started under
  module A and suspended on the login; the update \<open>B\<close> arrives and replaces the module;
  the task, resumed, lists the inventory of module B, whereas the same task run without the
  update lists the inventory of module A.
\<close>

theorem update_during_task_switches_module:
  "start_task demo_env worker_A
     (task ''r1'' ''INVENTORY'' (JObj [(''userid'', JStr ''u''), (''password'', JStr ''secret'')])) =
     ([Invoke ''verifyLoginDetails'' [JStr ''u'', JStr ''secret'']],
      Awaiting
        (InventoryLogin (JStr ''r1'')
           (JObj [(''userid'', JStr ''u''), (''password'', JStr ''secret'')]))
        (Returns (JObj [(''success'', JBool True), (''cookies'', JStr ''sid=1'')])))
   \<and> on_update_logic_file demo_env worker_A (JObj [(''content'', JStr ''B'')]) =
       Inr ([], worker_B)
   \<and> settle demo_env worker_B (settle demo_env worker_B (start_task demo_env worker_A
       (task ''r1'' ''INVENTORY''
          (JObj [(''userid'', JStr ''u''), (''password'', JStr ''secret'')])))) =
       ([Invoke ''verifyLoginDetails'' [JStr ''u'', JStr ''secret''],
         Invoke ''getInventoryList'' [JStr ''sid=1'', JNum 50],
         Emit ''task_completed''
           [JObj [(''requestId'', JStr ''r1''),
                  (''result'',
                   JObj [(''status'', JStr ''success''), (''count'', JNum 1),
                         (''data'', JArr [JStr ''meter of B''])])]]],
        Finished)
   \<and> on_execute_task demo_env worker_A
       (task ''r1'' ''INVENTORY''
          (JObj [(''userid'', JStr ''u''), (''password'', JStr ''secret'')])) =
       ([Invoke ''verifyLoginDetails'' [JStr ''u'', JStr ''secret''],
         Invoke ''getInventoryList'' [JStr ''sid=1'', JNum 50],
         Emit ''task_completed''
           [JObj [(''requestId'', JStr ''r1''),
                  (''result'',
                   JObj [(''status'', JStr ''success''), (''count'', JNum 2),
                         (''data'', JArr [JStr ''meter of A'', JNum 50])])]]],
        Finished)"
  by (simp add: update_B) (simp add: demo_defs run_defs)

text \<open>
  \<^bold>\<open>C7\<close>, witness: the task of the counterexample and a \<open>SINGLE_CHECK\<close> task, both
  started under module A and resumed under module B, up to their second \<open>await\<close>.
\<close>

theorem chain_reads_module_at_each_call_witness:
  "settle demo_env worker_B (start_task demo_env worker_A
     (task ''r1'' ''INVENTORY''
        (JObj [(''userid'', JStr ''u''), (''password'', JStr ''secret'')]))) =
     ([Invoke ''verifyLoginDetails'' [JStr ''u'', JStr ''secret''],
       Invoke ''getInventoryList'' [JStr ''sid=1'', JNum 50]],
      Awaiting (InventoryList (JStr ''r1'')) (Returns (JArr [JStr ''meter of B''])))
   \<and> settle demo_env worker_B (start_task demo_env worker_A
     (task ''r2'' ''SINGLE_CHECK''
        (JObj [(''userid'', JStr ''u''), (''password'', JStr ''secret''),
               (''meterNo'', JStr ''1001'')]))) =
     ([Invoke ''verifyLoginDetails'' [JStr ''u'', JStr ''secret''],
       Invoke ''verifyMeter'' [JStr ''sid=1'', JStr ''1001'']],
      Awaiting (CheckMeter (JStr ''r2''))
        (Returns (JObj [(''found'', JBool True), (''data'', JStr ''meter 1001'')])))"
  using chain_reads_module_at_each_call
     [where ?s0.0 = worker_A and ?s1.0 = worker_B and ?m0.0 = module_A and ?m1.0 = module_B
        and e = demo_env and rid = "''r1''" and taskType = "''INVENTORY''"
        and data = "task ''r1'' ''INVENTORY''
                      (JObj [(''userid'', JStr ''u''), (''password'', JStr ''secret'')])"
        and payload = "JObj [(''userid'', JStr ''u''), (''password'', JStr ''secret'')]"
        and userid = "JStr ''u''" and password = "JStr ''secret''" and limit = JUndefined
        and meterNo = JUndefined and login = login_A
        and auth = "JObj [(''success'', JBool True), (''cookies'', JStr ''sid=1'')]"
        and success = "JBool True" and cookies = "JStr ''sid=1''"]
    chain_reads_module_at_each_call
     [where ?s0.0 = worker_A and ?s1.0 = worker_B and ?m0.0 = module_A and ?m1.0 = module_B
        and e = demo_env and rid = "''r2''" and taskType = "''SINGLE_CHECK''"
        and data = "task ''r2'' ''SINGLE_CHECK''
                      (JObj [(''userid'', JStr ''u''), (''password'', JStr ''secret''),
                             (''meterNo'', JStr ''1001'')])"
        and payload = "JObj [(''userid'', JStr ''u''), (''password'', JStr ''secret''),
                             (''meterNo'', JStr ''1001'')]"
        and userid = "JStr ''u''" and password = "JStr ''secret''" and limit = JUndefined
        and meterNo = "JStr ''1001''" and login = login_A
        and auth = "JObj [(''success'', JBool True), (''cookies'', JStr ''sid=1'')]"
        and success = "JBool True" and cookies = "JStr ''sid=1''"]
  by (simp add: demo_defs js_or_def)

text \<open>
  \<^bold>\<open>C8\<close>. The claim asks for one heartbeat per period of 10 seconds however often the
  channel has connected. The handler of \<open>connect\<close> starts a new interval timer each time
  and none is ever cleared: after a connection, 3 seconds, and a second connection, the
  following 10 seconds see two heartbeats.
\<close>

theorem reconnect_doubles_heartbeat:
  "heartbeats (fst (advance 10000
      (snd (on_connect demo_env (snd (advance 3000 (snd (on_connect demo_env worker0)))))))) = 2"
proof -
  define a where "a = snd (on_connect demo_env worker0)"
  have a: "now a = 0" "intervals a = [10000]"
    by (simp_all add: a_def on_connect_def worker0_def)
  define b where "b = snd (advance 3000 a)"
  have "advance 3000 a = ([], a\<lparr>now := now a + 3000\<rparr>)"
    by (rule advance_quiet) (simp add: a)
  then have b: "now b = 3000" "intervals b = [10000]"
    by (simp_all add: b_def a)
  define c where "c = snd (on_connect demo_env b)"
  have c: "now c = 3000" "intervals c = [10000, 13000]"
    by (simp_all add: c_def on_connect_def b)
  have "heartbeats (fst (advance 10000 c)) = length (intervals c)"
    by (rule heartbeats_per_period_is_number_of_timers) (simp add: c)
  then have "heartbeats (fst (advance 10000 c)) = 2" by (simp add: c)
  then show ?thesis unfolding c_def b_def a_def .
qed

text \<open>
  \<^bold>\<open>C9\<close>. For every \<open>SINGLE_CHECK\<close> task the first thing the handler does is to call
  \<open>verifyLoginDetails(payload.userid, payload.password)\<close>. When that returns \<open>auth\<close> with
  a falsy \<open>success\<close>, the result is exactly \<open>{error: "Login Failed"}\<close> and
  \<open>verifyMeter\<close> is never called. When \<open>success\<close> is truthy, \<open>verifyMeter\<close> is called
  with \<open>auth.cookies\<close> and \<open>payload.meterNo\<close>, and for what it returns the result is
  exactly \<open>{status: "found", data: check.data}\<close> when \<open>check.found\<close> is truthy and
  exactly \<open>{status: "not_found"}\<close> otherwise.
\<close>

theorem single_check_login_then_meter:
  assumes "logic s = Module m" and "member_truthy (processBatch m)"
      and "js_get data ''requestId'' = Inr (JStr rid)"
      and "js_get data ''taskType'' = Inr (JStr ''SINGLE_CHECK'')"
      and "js_get data ''payload'' = Inr payload"
      and "js_get payload ''userid'' = Inr userid"
      and "js_get payload ''password'' = Inr password"
      and "js_get payload ''meterNo'' = Inr meterNo"
      and "verifyLoginDetails m = Func login"
  shows "(\<exists>rest. fst (on_execute_task e s data) =
                   Invoke ''verifyLoginDetails'' [userid, password] # rest)
       \<and> (\<forall>auth success cookies.
            login userid password = Returns auth
            \<and> js_get auth ''success'' = Inr success
            \<and> js_get auth ''cookies'' = Inr cookies \<longrightarrow>
            (\<not> truthy success \<longrightarrow>
               on_execute_task e s data =
                 ([Invoke ''verifyLoginDetails'' [userid, password],
                   Emit ''task_completed''
                     [JObj [(''requestId'', JStr rid),
                            (''result'', JObj [(''error'', JStr ''Login Failed'')])]]],
                  Finished)
               \<and> invocations ''verifyMeter'' (fst (on_execute_task e s data)) = [])
            \<and> (truthy success \<longrightarrow>
                 (\<forall>meter check found d.
                    verifyMeter m = Func meter
                    \<and> meter cookies meterNo = Returns check
                    \<and> js_get check ''found'' = Inr found
                    \<and> js_get check ''data'' = Inr d \<longrightarrow>
                    on_execute_task e s data =
                      ([Invoke ''verifyLoginDetails'' [userid, password],
                        Invoke ''verifyMeter'' [cookies, meterNo],
                        Emit ''task_completed''
                          [JObj [(''requestId'', JStr rid),
                                 (''result'',
                                  if truthy found
                                  then JObj [(''status'', JStr ''found''), (''data'', d)]
                                  else JObj [(''status'', JStr ''not_found'')])]]],
                       Finished))))"
proof -
  have r: "ready (logic s)" using assms(1,2) by simp
  have st: "start_task e s data =
              ([Invoke ''verifyLoginDetails'' [userid, password]],
               Awaiting (CheckLogin (JStr rid) payload) (login userid password))"
    using assms by (simp add: start_task_eq_str [OF r] dispatch_login call2_Func)
  have first: "\<exists>rest. fst (on_execute_task e s data) =
                   Invoke ''verifyLoginDetails'' [userid, password] # rest"
    unfolding on_execute_task_def st
    using settle_settle_fst [of e s "[Invoke ''verifyLoginDetails'' [userid, password]]"] by simp
  show ?thesis
    using assms first by (auto simp add: on_execute_task_def st call2_Func finish_def)
qed

text \<open>
  \<^bold>\<open>C9\<close>, witness: a meter that exists and one that does not, checked with the right
  password, and a check with a wrong password.
\<close>

theorem single_check_login_then_meter_witness:
  "on_execute_task demo_env worker_A
     (task ''r1'' ''SINGLE_CHECK''
        (JObj [(''userid'', JStr ''u''), (''password'', JStr ''secret''),
               (''meterNo'', JStr ''1001'')])) =
     ([Invoke ''verifyLoginDetails'' [JStr ''u'', JStr ''secret''],
       Invoke ''verifyMeter'' [JStr ''sid=1'', JStr ''1001''],
       Emit ''task_completed''
         [JObj [(''requestId'', JStr ''r1''),
                (''result'', JObj [(''status'', JStr ''found''), (''data'', JStr ''meter 1001'')])]]],
      Finished)
   \<and> on_execute_task demo_env worker_A
     (task ''r2'' ''SINGLE_CHECK''
        (JObj [(''userid'', JStr ''u''), (''password'', JStr ''secret''),
               (''meterNo'', JStr ''2002'')])) =
     ([Invoke ''verifyLoginDetails'' [JStr ''u'', JStr ''secret''],
       Invoke ''verifyMeter'' [JStr ''sid=1'', JStr ''2002''],
       Emit ''task_completed''
         [JObj [(''requestId'', JStr ''r2''),
                (''result'', JObj [(''status'', JStr ''not_found'')])]]],
      Finished)
   \<and> on_execute_task demo_env worker_A
     (task ''r3'' ''SINGLE_CHECK''
        (JObj [(''userid'', JStr ''u''), (''password'', JStr ''guess''),
               (''meterNo'', JStr ''1001'')])) =
     ([Invoke ''verifyLoginDetails'' [JStr ''u'', JStr ''guess''],
       Emit ''task_completed''
         [JObj [(''requestId'', JStr ''r3''),
                (''result'', JObj [(''error'', JStr ''Login Failed'')])]]],
      Finished)"
  using single_check_login_then_meter
     [where s = worker_A and m = module_A and e = demo_env and rid = "''r1''"
        and data = "task ''r1'' ''SINGLE_CHECK''
                      (JObj [(''userid'', JStr ''u''), (''password'', JStr ''secret''),
                             (''meterNo'', JStr ''1001'')])"
        and payload = "JObj [(''userid'', JStr ''u''), (''password'', JStr ''secret''),
                             (''meterNo'', JStr ''1001'')]"
        and userid = "JStr ''u''" and password = "JStr ''secret''" and meterNo = "JStr ''1001''"
        and login = login_A]
    single_check_login_then_meter
     [where s = worker_A and m = module_A and e = demo_env and rid = "''r2''"
        and data = "task ''r2'' ''SINGLE_CHECK''
                      (JObj [(''userid'', JStr ''u''), (''password'', JStr ''secret''),
                             (''meterNo'', JStr ''2002'')])"
        and payload = "JObj [(''userid'', JStr ''u''), (''password'', JStr ''secret''),
                             (''meterNo'', JStr ''2002'')]"
        and userid = "JStr ''u''" and password = "JStr ''secret''" and meterNo = "JStr ''2002''"
        and login = login_A]
    single_check_login_then_meter
     [where s = worker_A and m = module_A and e = demo_env and rid = "''r3''"
        and data = "task ''r3'' ''SINGLE_CHECK''
                      (JObj [(''userid'', JStr ''u''), (''password'', JStr ''guess''),
                             (''meterNo'', JStr ''1001'')])"
        and payload = "JObj [(''userid'', JStr ''u''), (''password'', JStr ''guess''),
                             (''meterNo'', JStr ''1001'')]"
        and userid = "JStr ''u''" and password = "JStr ''guess''" and meterNo = "JStr ''1001''"
        and login = login_A]
  by (simp add: demo_defs)

text \<open>
  \<^bold>\<open>C10\<close> (as amended). Readiness looks at \<open>processBatch\<close> only: a module with a
  truthy \<open>processBatch\<close> is ready whatever else it exports, and a task sent to it is
  executed, not dropped. When \<open>verifyLoginDetails\<close> is not a function, a
  \<open>LOGIN_CHECK\<close>, \<open>INVENTORY\<close> or \<open>SINGLE_CHECK\<close> task ends with exactly one
  \<open>task_completed\<close> whose result is the caught TypeError,
  \<open>{error: "logic.verifyLoginDetails is not a function", failed: 1}\<close>. When the login
  returns a success and \<open>getInventoryList\<close> (for \<open>INVENTORY\<close>) or \<open>verifyMeter\<close> (for
  \<open>SINGLE_CHECK\<close>) is not a function, the task ends likewise with that call's TypeError.
  When the login returns without success, the missing second capability is never reached
  and the task ends with its login-failure result.
\<close>

theorem missing_capability_is_caught:
  assumes "logic s = Module m" and "member_truthy (processBatch m)"
      and "js_get data ''requestId'' = Inr (JStr rid)"
      and "js_get data ''taskType'' = Inr (JStr taskType)"
      and "js_get data ''payload'' = Inr payload"
      and "js_get payload ''userid'' = Inr userid"
      and "js_get payload ''password'' = Inr password"
  shows "ready (logic s)
       \<and> (\<forall>v. verifyLoginDetails m = Data v
              \<and> (taskType = ''LOGIN_CHECK'' \<or> taskType = ''INVENTORY'' \<or> taskType = ''SINGLE_CHECK'')
            \<longrightarrow> on_execute_task e s data =
              ([ConsoleError [JStr ''Error: logic.verifyLoginDetails is not a function''],
                Emit ''task_completed''
                  [JObj [(''requestId'', JStr rid),
                         (''result'',
                          JObj [(''error'', JStr ''logic.verifyLoginDetails is not a function''),
                                (''failed'', JNum 1)])]]],
               Finished))
       \<and> (\<forall>login auth success v.
              verifyLoginDetails m = Func login \<and> login userid password = Returns auth
              \<and> js_get auth ''success'' = Inr success \<and> truthy success
              \<and> taskType = ''INVENTORY'' \<and> getInventoryList m = Data v
            \<longrightarrow> on_execute_task e s data =
              ([Invoke ''verifyLoginDetails'' [userid, password],
                ConsoleError [JStr ''Error: logic.getInventoryList is not a function''],
                Emit ''task_completed''
                  [JObj [(''requestId'', JStr rid),
                         (''result'',
                          JObj [(''error'', JStr ''logic.getInventoryList is not a function''),
                                (''failed'', JNum 1)])]]],
               Finished))
       \<and> (\<forall>login auth success v.
              verifyLoginDetails m = Func login \<and> login userid password = Returns auth
              \<and> js_get auth ''success'' = Inr success \<and> truthy success
              \<and> taskType = ''SINGLE_CHECK'' \<and> verifyMeter m = Data v
            \<longrightarrow> on_execute_task e s data =
              ([Invoke ''verifyLoginDetails'' [userid, password],
                ConsoleError [JStr ''Error: logic.verifyMeter is not a function''],
                Emit ''task_completed''
                  [JObj [(''requestId'', JStr rid),
                         (''result'',
                          JObj [(''error'', JStr ''logic.verifyMeter is not a function''),
                                (''failed'', JNum 1)])]]],
               Finished))
       \<and> (\<forall>login auth success message rendered v.
              verifyLoginDetails m = Func login \<and> login userid password = Returns auth
              \<and> js_get auth ''success'' = Inr success \<and> \<not> truthy success
              \<and> js_get auth ''message'' = Inr message \<and> to_string e message = Inr rendered
              \<and> taskType = ''INVENTORY'' \<and> getInventoryList m = Data v
            \<longrightarrow> on_execute_task e s data =
              ([Invoke ''verifyLoginDetails'' [userid, password],
                Emit ''task_completed''
                  [JObj [(''requestId'', JStr rid),
                         (''result'',
                          JObj [(''error'', JStr (''Login Failed: '' @ rendered))])]]],
               Finished))
       \<and> (\<forall>login auth success v.
              verifyLoginDetails m = Func login \<and> login userid password = Returns auth
              \<and> js_get auth ''success'' = Inr success \<and> \<not> truthy success
              \<and> taskType = ''SINGLE_CHECK'' \<and> verifyMeter m = Data v
            \<longrightarrow> on_execute_task e s data =
              ([Invoke ''verifyLoginDetails'' [userid, password],
                Emit ''task_completed''
                  [JObj [(''requestId'', JStr rid),
                         (''result'', JObj [(''error'', JStr ''Login Failed'')])]]],
               Finished))"
proof (intro conjI allI impI)
  show r: "ready (logic s)" using assms(1,2) by simp
  note st = start_task_eq_str [OF r assms(3,4,5)]
  note dl = dispatch_login [OF assms(1,6,7)]
  {
    fix v
    assume "verifyLoginDetails m = Data v
              \<and> (taskType = ''LOGIN_CHECK'' \<or> taskType = ''INVENTORY'' \<or> taskType = ''SINGLE_CHECK'')"
    then show "on_execute_task e s data =
              ([ConsoleError [JStr ''Error: logic.verifyLoginDetails is not a function''],
                Emit ''task_completed''
                  [JObj [(''requestId'', JStr rid),
                         (''result'',
                          JObj [(''error'', JStr ''logic.verifyLoginDetails is not a function''),
                                (''failed'', JNum 1)])]]],
               Finished)"
      by (auto simp: on_execute_task_def st dl call2_Data catch_type_error not_a_function_def)
  }
  {
    fix login auth success v
    assume a: "verifyLoginDetails m = Func login \<and> login userid password = Returns auth
              \<and> js_get auth ''success'' = Inr success \<and> truthy success
              \<and> taskType = ''INVENTORY'' \<and> getInventoryList m = Data v"
    from a js_get_total [of auth "''success''" success "''cookies''"]
    obtain cookies where c: "js_get auth ''cookies'' = Inr cookies" by auto
    from js_get_total [OF assms(6), of "''limit''"]
    obtain limit where l: "js_get payload ''limit'' = Inr limit" by auto
    from a c l show "on_execute_task e s data =
              ([Invoke ''verifyLoginDetails'' [userid, password],
                ConsoleError [JStr ''Error: logic.getInventoryList is not a function''],
                Emit ''task_completed''
                  [JObj [(''requestId'', JStr rid),
                         (''result'',
                          JObj [(''error'', JStr ''logic.getInventoryList is not a function''),
                                (''failed'', JNum 1)])]]],
               Finished)"
      by (simp add: on_execute_task_def st dl call2_Func call2_Data catch_type_error
          not_a_function_def assms(1))
  }
  {
    fix login auth success v
    assume a: "verifyLoginDetails m = Func login \<and> login userid password = Returns auth
              \<and> js_get auth ''success'' = Inr success \<and> truthy success
              \<and> taskType = ''SINGLE_CHECK'' \<and> verifyMeter m = Data v"
    from a js_get_total [of auth "''success''" success "''cookies''"]
    obtain cookies where c: "js_get auth ''cookies'' = Inr cookies" by auto
    from js_get_total [OF assms(6), of "''meterNo''"]
    obtain meterNo where l: "js_get payload ''meterNo'' = Inr meterNo" by auto
    from a c l show "on_execute_task e s data =
              ([Invoke ''verifyLoginDetails'' [userid, password],
                ConsoleError [JStr ''Error: logic.verifyMeter is not a function''],
                Emit ''task_completed''
                  [JObj [(''requestId'', JStr rid),
                         (''result'',
                          JObj [(''error'', JStr ''logic.verifyMeter is not a function''),
                                (''failed'', JNum 1)])]]],
               Finished)"
      by (simp add: on_execute_task_def st dl call2_Func call2_Data catch_type_error
          not_a_function_def assms(1))
  }
  {
    fix login auth success message rendered v
    assume a: "verifyLoginDetails m = Func login \<and> login userid password = Returns auth
              \<and> js_get auth ''success'' = Inr success \<and> \<not> truthy success
              \<and> js_get auth ''message'' = Inr message \<and> to_string e message = Inr rendered
              \<and> taskType = ''INVENTORY'' \<and> getInventoryList m = Data v"
    then show "on_execute_task e s data =
              ([Invoke ''verifyLoginDetails'' [userid, password],
                Emit ''task_completed''
                  [JObj [(''requestId'', JStr rid),
                         (''result'',
                          JObj [(''error'', JStr (''Login Failed: '' @ rendered))])]]],
               Finished)"
      by (simp add: on_execute_task_def st dl call2_Func finish_def)
  }
  {
    fix login auth success v
    assume a: "verifyLoginDetails m = Func login \<and> login userid password = Returns auth
              \<and> js_get auth ''success'' = Inr success \<and> \<not> truthy success
              \<and> taskType = ''SINGLE_CHECK'' \<and> verifyMeter m = Data v"
    then show "on_execute_task e s data =
              ([Invoke ''verifyLoginDetails'' [userid, password],
                Emit ''task_completed''
                  [JObj [(''requestId'', JStr rid),
                         (''result'', JObj [(''error'', JStr ''Login Failed'')])]]],
               Finished)"
      by (simp add: on_execute_task_def st dl call2_Func finish_def)
  }
qed

text \<open>
  \<^bold>\<open>C10\<close>, counterexample to the claim as stated: the module lacks
  \<open>getInventoryList\<close>, the login of an \<open>INVENTORY\<close> task fails, and the task ends with
  the login failure, a result without \<open>failed: 1\<close>: the missing capability is never reached.
\<close>

theorem missing_inventory_login_failure:
  "ready (logic (worker_A \<lparr>logic := Module module_no_inventory\<rparr>))
   \<and> getInventoryList module_no_inventory = Data JUndefined
   \<and> on_execute_task demo_env (worker_A \<lparr>logic := Module module_no_inventory\<rparr>)
       (task ''r1'' ''INVENTORY''
          (JObj [(''userid'', JStr ''u''), (''password'', JStr ''guess'')])) =
       ([Invoke ''verifyLoginDetails'' [JStr ''u'', JStr ''guess''],
         Emit ''task_completed''
           [JObj [(''requestId'', JStr ''r1''),
                  (''result'', JObj [(''error'', JStr ''Login Failed: Invalid password'')])]]],
        Finished)"
  by (simp add: demo_defs run_defs)

text \<open>
  \<^bold>\<open>C10\<close>, witness: a module that exports \<open>processBatch\<close> only, one that lacks
  \<open>getInventoryList\<close> and one that lacks \<open>verifyMeter\<close>, each with a login that
  succeeds and, for the last two, with one that fails.
\<close>

theorem missing_capability_is_caught_witness:
  "ready (logic (worker_A \<lparr>logic := Module module_batch_only\<rparr>))
   \<and> on_execute_task demo_env (worker_A \<lparr>logic := Module module_batch_only\<rparr>)
       (task ''r1'' ''LOGIN_CHECK''
          (JObj [(''userid'', JStr ''u''), (''password'', JStr ''secret'')])) =
       ([ConsoleError [JStr ''Error: logic.verifyLoginDetails is not a function''],
         Emit ''task_completed''
           [JObj [(''requestId'', JStr ''r1''),
                  (''result'',
                   JObj [(''error'', JStr ''logic.verifyLoginDetails is not a function''),
                         (''failed'', JNum 1)])]]],
        Finished)
   \<and> on_execute_task demo_env (worker_A \<lparr>logic := Module module_no_inventory\<rparr>)
       (task ''r2'' ''INVENTORY''
          (JObj [(''userid'', JStr ''u''), (''password'', JStr ''secret'')])) =
       ([Invoke ''verifyLoginDetails'' [JStr ''u'', JStr ''secret''],
         ConsoleError [JStr ''Error: logic.getInventoryList is not a function''],
         Emit ''task_completed''
           [JObj [(''requestId'', JStr ''r2''),
                  (''result'',
                   JObj [(''error'', JStr ''logic.getInventoryList is not a function''),
                         (''failed'', JNum 1)])]]],
        Finished)
   \<and> on_execute_task demo_env (worker_A \<lparr>logic := Module module_no_meter\<rparr>)
       (task ''r3'' ''SINGLE_CHECK''
          (JObj [(''userid'', JStr ''u''), (''password'', JStr ''secret''),
                 (''meterNo'', JStr ''1001'')])) =
       ([Invoke ''verifyLoginDetails'' [JStr ''u'', JStr ''secret''],
         ConsoleError [JStr ''Error: logic.verifyMeter is not a function''],
         Emit ''task_completed''
           [JObj [(''requestId'', JStr ''r3''),
                  (''result'',
                   JObj [(''error'', JStr ''logic.verifyMeter is not a function''),
                         (''failed'', JNum 1)])]]],
        Finished)
   \<and> on_execute_task demo_env (worker_A \<lparr>logic := Module module_no_inventory\<rparr>)
       (task ''r4'' ''INVENTORY''
          (JObj [(''userid'', JStr ''u''), (''password'', JStr ''guess'')])) =
       ([Invoke ''verifyLoginDetails'' [JStr ''u'', JStr ''guess''],
         Emit ''task_completed''
           [JObj [(''requestId'', JStr ''r4''),
                  (''result'', JObj [(''error'', JStr ''Login Failed: Invalid password'')])]]],
        Finished)
   \<and> on_execute_task demo_env (worker_A \<lparr>logic := Module module_no_meter\<rparr>)
       (task ''r5'' ''SINGLE_CHECK''
          (JObj [(''userid'', JStr ''u''), (''password'', JStr ''guess''),
                 (''meterNo'', JStr ''1001'')])) =
       ([Invoke ''verifyLoginDetails'' [JStr ''u'', JStr ''guess''],
         Emit ''task_completed''
           [JObj [(''requestId'', JStr ''r5''),
                  (''result'', JObj [(''error'', JStr ''Login Failed'')])]]],
        Finished)"
  using missing_capability_is_caught
     [where s = "worker_A \<lparr>logic := Module module_no_inventory\<rparr>" and m = module_no_inventory
        and e = demo_env and rid = "''r4''" and taskType = "''INVENTORY''"
        and data = "task ''r4'' ''INVENTORY''
                      (JObj [(''userid'', JStr ''u''), (''password'', JStr ''guess'')])"
        and payload = "JObj [(''userid'', JStr ''u''), (''password'', JStr ''guess'')]"
        and userid = "JStr ''u''" and password = "JStr ''guess''"]
    missing_capability_is_caught
     [where s = "worker_A \<lparr>logic := Module module_no_meter\<rparr>" and m = module_no_meter
        and e = demo_env and rid = "''r5''" and taskType = "''SINGLE_CHECK''"
        and data = "task ''r5'' ''SINGLE_CHECK''
                      (JObj [(''userid'', JStr ''u''), (''password'', JStr ''guess''),
                             (''meterNo'', JStr ''1001'')])"
        and payload = "JObj [(''userid'', JStr ''u''), (''password'', JStr ''guess''),
                             (''meterNo'', JStr ''1001'')]"
        and userid = "JStr ''u''" and password = "JStr ''guess''"]
    missing_capability_is_caught
     [where s = "worker_A \<lparr>logic := Module module_batch_only\<rparr>" and m = module_batch_only
        and e = demo_env and rid = "''r1''" and taskType = "''LOGIN_CHECK''"
        and data = "task ''r1'' ''LOGIN_CHECK''
                      (JObj [(''userid'', JStr ''u''), (''password'', JStr ''secret'')])"
        and payload = "JObj [(''userid'', JStr ''u''), (''password'', JStr ''secret'')]"
        and userid = "JStr ''u''" and password = "JStr ''secret''"]
    missing_capability_is_caught
     [where s = "worker_A \<lparr>logic := Module module_no_inventory\<rparr>" and m = module_no_inventory
        and e = demo_env and rid = "''r2''" and taskType = "''INVENTORY''"
        and data = "task ''r2'' ''INVENTORY''
                      (JObj [(''userid'', JStr ''u''), (''password'', JStr ''secret'')])"
        and payload = "JObj [(''userid'', JStr ''u''), (''password'', JStr ''secret'')]"
        and userid = "JStr ''u''" and password = "JStr ''secret''"]
    missing_capability_is_caught
     [where s = "worker_A \<lparr>logic := Module module_no_meter\<rparr>" and m = module_no_meter
        and e = demo_env and rid = "''r3''" and taskType = "''SINGLE_CHECK''"
        and data = "task ''r3'' ''SINGLE_CHECK''
                      (JObj [(''userid'', JStr ''u''), (''password'', JStr ''secret''),
                             (''meterNo'', JStr ''1001'')])"
        and payload = "JObj [(''userid'', JStr ''u''), (''password'', JStr ''secret''),
                             (''meterNo'', JStr ''1001'')]"
        and userid = "JStr ''u''" and password = "JStr ''secret''"]
  by (simp add: demo_defs)

end
